theory Spec2Isabelle
  imports Complex_Main "HOL-Library.Multiset"
begin

section \<open>JavaScript values\<close>

text \<open>
  The backend is JavaScript. Its numbers are modelled as exact rationals together with
  the three special values of the language; the rounding of IEEE doubles is not modelled.
  Strings are lists of 8-bit characters, with the case folding and the white space of ASCII.
\<close>

datatype jsnum = NaN | PosInf | NegInf | Num rat

text \<open>
  The primitive values, and the values that a JSON request body carries. An object lists
  each of its keys once.
\<close>

datatype jsval =
    JUndefined
  | JNull
  | JBool bool
  | JNum jsnum
  | JStr string

datatype json =
    Prim jsval
  | JArr "json list"
  | JObj "(string \<times> json) list"

datatype js_error = TypeError | SyntaxError

type_synonym 'a result = "js_error + 'a"

definition bind :: "'a result \<Rightarrow> ('a \<Rightarrow> 'b result) \<Rightarrow> 'b result" where
  "bind r f = (case r of Inl e \<Rightarrow> Inl e | Inr x \<Rightarrow> f x)"

fun sequence :: "'a result list \<Rightarrow> 'a list result" where
  "sequence [] = Inr []"
| "sequence (r # rs) = bind r (\<lambda>x. bind (sequence rs) (\<lambda>xs. Inr (x # xs)))"

text \<open>
  Conversions that the engine performs and that are not code of the repository are taken
  as parameters: \<open>JSON.parse\<close> (\<open>None\<close> when it throws a SyntaxError), the
  decimal rendering of a finite number, the numeric reading of a string (\<open>ToNumber\<close>
  on strings), \<open>parseFloat\<close> on strings and the message text of an exception.
  Every theorem below holds for all of them.
\<close>

record builtins =
  JSON_parse :: "string \<Rightarrow> json option"
  Number_toString :: "rat \<Rightarrow> string"
  StringToNumber :: "string \<Rightarrow> jsnum"
  parseFloat_string :: "string \<Rightarrow> jsnum"
  error_message :: "js_error \<Rightarrow> string"

fun join :: "string \<Rightarrow> string list \<Rightarrow> string" where
  "join sep [] = []"
| "join sep [x] = x"
| "join sep (x # y # ys) = x @ sep @ join sep (y # ys)"

text \<open>\<open>String(v)\<close> and the interpolation \<open>${v}\<close> of a primitive value.\<close>

fun ToString :: "builtins \<Rightarrow> jsval \<Rightarrow> string" where
  "ToString B JUndefined = ''undefined''"
| "ToString B JNull = ''null''"
| "ToString B (JBool b) = (if b then ''true'' else ''false'')"
| "ToString B (JNum NaN) = ''NaN''"
| "ToString B (JNum PosInf) = ''Infinity''"
| "ToString B (JNum NegInf) = ''-Infinity''"
| "ToString B (JNum (Num q)) = Number_toString B q"
| "ToString B (JStr s) = s"

text \<open>
  \<open>String(v)\<close> of a JSON value. An array joins the strings of its elements, with the empty
  string for null and undefined. An object has the string of \<open>Object.prototype.toString\<close>,
  unless it has a key \<open>toString\<close> of its own: the value under it is no function, the
  inherited \<open>valueOf\<close> returns the object itself, and the conversion throws a TypeError.
\<close>

fun ToString_json :: "builtins \<Rightarrow> json \<Rightarrow> string result" where
  "ToString_json B (Prim p) = Inr (ToString B p)"
| "ToString_json B (JArr xs) =
     bind (sequence (map (\<lambda>x. if x = Prim JUndefined \<or> x = Prim JNull then Inr []
                               else ToString_json B x) xs))
       (\<lambda>strs. Inr (join '','' strs))"
| "ToString_json B (JObj kvs) =
     (if ''toString'' \<in> fst ` set kvs then Inl TypeError else Inr ''[object Object]'')"

fun ToNumber :: "builtins \<Rightarrow> jsval \<Rightarrow> jsnum" where
  "ToNumber B JUndefined = NaN"
| "ToNumber B JNull = Num 0"
| "ToNumber B (JBool b) = Num (if b then 1 else 0)"
| "ToNumber B (JNum n) = n"
| "ToNumber B (JStr s) = StringToNumber B s"

text \<open>The relational operators of the language on numbers: false whenever NaN takes part.\<close>

fun num_lt :: "jsnum \<Rightarrow> jsnum \<Rightarrow> bool" where
  "num_lt NaN y = False"
| "num_lt x NaN = False"
| "num_lt PosInf y = False"
| "num_lt NegInf y = (y \<noteq> NegInf)"
| "num_lt (Num a) PosInf = True"
| "num_lt (Num a) NegInf = False"
| "num_lt (Num a) (Num b) = (a < b)"

definition num_gt :: "jsnum \<Rightarrow> jsnum \<Rightarrow> bool" where
  "num_gt x y = num_lt y x"

fun num_ge :: "jsnum \<Rightarrow> jsnum \<Rightarrow> bool" where
  "num_ge NaN y = False"
| "num_ge x NaN = False"
| "num_ge x y = (\<not> num_lt x y)"

text \<open>\<open>v < k\<close> and \<open>v > k\<close> for a primitive value \<open>v\<close> and a numeric literal \<open>k\<close>.\<close>

definition js_lt :: "builtins \<Rightarrow> jsval \<Rightarrow> rat \<Rightarrow> bool" where
  "js_lt B v k = num_lt (ToNumber B v) (Num k)"

definition js_gt :: "builtins \<Rightarrow> jsval \<Rightarrow> rat \<Rightarrow> bool" where
  "js_gt B v k = num_gt (ToNumber B v) (Num k)"

fun truthy :: "jsval \<Rightarrow> bool" where
  "truthy JUndefined = False"
| "truthy JNull = False"
| "truthy (JBool b) = b"
| "truthy (JNum n) = (n \<noteq> NaN \<and> n \<noteq> Num 0)"
| "truthy (JStr s) = (s \<noteq> [])"

fun truthy_json :: "json \<Rightarrow> bool" where
  "truthy_json (Prim p) = truthy p"
| "truthy_json v = True"

subsection \<open>Property access on an object literal\<close>

text \<open>
  The tables of the services are object literals, and \<open>table[key]\<close> consults the
  prototype chain: a key that is no own property but names a property of
  \<open>Object.prototype\<close> yields that inherited function (for \<open>__proto__\<close>, the
  prototype object itself), which is truthy.
\<close>

definition Object_prototype_keys :: "string list" where
  "Object_prototype_keys =
     [''constructor'', ''__defineGetter__'', ''__defineSetter__'', ''hasOwnProperty'',
      ''__lookupGetter__'', ''__lookupSetter__'', ''isPrototypeOf'', ''propertyIsEnumerable'',
      ''toString'', ''valueOf'', ''__proto__'', ''toLocaleString'']"

datatype 'a property = Own 'a | Inherited | Missing

definition get_property :: "(string \<times> 'a) list \<Rightarrow> string \<Rightarrow> 'a property" where
  "get_property table key =
     (case map_of table key of
        Some v \<Rightarrow> Own v
      | None \<Rightarrow> if key \<in> set Object_prototype_keys then Inherited else Missing)"

section \<open>The answer mapping\<close>

text \<open>
  The eight fields of the survey vocabulary, with the values that the parsers assign:
  primitive values, and for \<open>sleep\<close>, which \<open>parseJsonInput\<close> may copy from the raw
  input, any JSON value. \<open>JUndefined\<close> is an absent key.
\<close>

record answers =
  age :: jsval
  smoker :: jsval
  exercise :: jsval
  diet :: jsval
  alcohol :: jsval
  sleep :: json
  stress :: jsval
  bmi :: jsval

definition empty_answers :: answers where
  "empty_answers = \<lparr>age = JUndefined, smoker = JUndefined, exercise = JUndefined,
     diet = JUndefined, alcohol = JUndefined, sleep = Prim JUndefined, stress = JUndefined,
     bmi = JUndefined\<rparr>"

text \<open>\<open>Object.entries(answers)\<close>, an absent key with the value undefined.\<close>

definition field_values :: "answers \<Rightarrow> (string \<times> json) list" where
  "field_values a =
     [(''age'', Prim (age a)), (''smoker'', Prim (smoker a)), (''exercise'', Prim (exercise a)),
      (''diet'', Prim (diet a)), (''alcohol'', Prim (alcohol a)), (''sleep'', sleep a),
      (''stress'', Prim (stress a)), (''bmi'', Prim (bmi a))]"

section \<open>Risk classifier (riskClassifier.js)\<close>

definition FACTOR_SCORES :: "(string \<times> int) list" where
  "FACTOR_SCORES =
     [(''smoking'', 25), (''poor diet'', 18), (''low exercise'', 15),
      (''excessive alcohol'', 20), (''poor sleep'', 10), (''high stress'', 12),
      (''obesity'', 20), (''overweight'', 10), (''advanced age'', 8), (''middle age'', 4)]"

definition getAgeBaseRisk :: "builtins \<Rightarrow> jsval \<Rightarrow> int" where
  "getAgeBaseRisk B a =
     (if a = JUndefined \<or> a = JNull then 0
      else if js_lt B a 30 then 0
      else if js_lt B a 40 then 5
      else if js_lt B a 50 then 10
      else if js_lt B a 60 then 15
      else if js_lt B a 70 then 20
      else 25)"

fun rationale_of :: "builtins \<Rightarrow> answers \<Rightarrow> string \<Rightarrow> string list" where
  "rationale_of B ans factor =
     (if factor = ''smoking'' then [''smoking'']
      else if factor = ''poor diet'' then
        [if truthy (diet ans) then ToString B (diet ans) @ '' diet'' else ''poor dietary habits'']
      else if factor = ''low exercise'' then
        [if exercise ans = JStr ''rarely'' then ''low physical activity''
         else ''sedentary lifestyle'']
      else if factor = ''excessive alcohol'' then [''high alcohol consumption'']
      else if factor = ''poor sleep'' then
        [case sleep ans of
           Prim (JNum n) \<Rightarrow> ''inadequate sleep ('' @ ToString B (JNum n) @ '' hours)''
         | _ \<Rightarrow> ''poor sleep quality'']
      else if factor = ''high stress'' then [''chronic stress'']
      else if factor = ''obesity'' then
        [if truthy (bmi ans) then ''obesity (BMI: '' @ ToString B (bmi ans) @ '')''
         else ''obesity'']
      else if factor = ''overweight'' then
        [if truthy (bmi ans) then ''overweight (BMI: '' @ ToString B (bmi ans) @ '')''
         else ''overweight'']
      else if factor = ''advanced age'' then
        [''age factor ('' @ ToString B (age ans) @ '' years)'']
      else if factor = ''middle age'' then []
      else [factor])"

definition generateRationale :: "builtins \<Rightarrow> string list \<Rightarrow> answers \<Rightarrow> string list" where
  "generateRationale B factors ans = concat (map (rationale_of B ans) factors)"

definition getRiskLevel :: "jsnum \<Rightarrow> string" where
  "getRiskLevel score =
     (if num_lt score (Num 25) then ''low''
      else if num_lt score (Num 50) then ''moderate''
      else if num_lt score (Num 75) then ''high''
      else ''very high'')"

text \<open>
  The variable \<open>score\<close> of \<open>classifyRisk\<close>. It starts as a number; \<open>score += factorScore\<close>
  with an inherited function or object as \<open>factorScore\<close> concatenates strings, and from then
  on the variable holds a string that is no numeric literal (it contains the source text
  of the function, or \<open>[object Object]\<close>).
\<close>

datatype accum = Number int | Text

fun add_factor :: "accum \<Rightarrow> string \<Rightarrow> accum" where
  "add_factor (Number s) factor =
     (case get_property FACTOR_SCORES factor of
        Own n \<Rightarrow> Number (s + (if n \<noteq> 0 then n else 0))
      | Inherited \<Rightarrow> Text
      | Missing \<Rightarrow> Number (s + 0))"
| "add_factor Text factor = Text"

fun Math_min_100 :: "accum \<Rightarrow> jsnum" where
  "Math_min_100 (Number s) = Num (of_int (min 100 s))"
| "Math_min_100 Text = NaN"

fun Math_round :: "jsnum \<Rightarrow> jsnum" where
  "Math_round (Num q) = Num (of_int \<lfloor>q + 1 / 2\<rfloor>)"
| "Math_round n = n"

record risk_result =
  risk_level :: string
  score :: jsnum
  rationale :: "string list"

definition classifyRisk :: "builtins \<Rightarrow> string list \<Rightarrow> answers \<Rightarrow> risk_result" where
  "classifyRisk B factors ans =
     (let s0 = Number (0 + getAgeBaseRisk B (age ans));
          s1 = foldl add_factor s0 factors;
          s2 = Math_min_100 s1
      in \<lparr>risk_level = getRiskLevel s2,
          score = Math_round s2,
          rationale = generateRationale B factors ans\<rparr>)"


section \<open>Sorting with a comparator\<close>

text \<open>
  \<open>Array.prototype.sort\<close> is stable and reads a comparator result NaN as 0. For a
  consistent comparator its result is the stable sort, which insertion computes; for an
  inconsistent one the language leaves the order to the engine.
\<close>

fun insert_by :: "('a \<Rightarrow> 'a \<Rightarrow> jsnum) \<Rightarrow> 'a \<Rightarrow> 'a list \<Rightarrow> 'a list" where
  "insert_by cmp x [] = [x]"
| "insert_by cmp x (y # ys) =
     (if num_gt (cmp x y) (Num 0) then y # insert_by cmp x ys else x # y # ys)"

definition Array_sort :: "('a \<Rightarrow> 'a \<Rightarrow> jsnum) \<Rightarrow> 'a list \<Rightarrow> 'a list" where
  "Array_sort cmp xs = foldr (insert_by cmp) xs []"

section \<open>Strings\<close>

definition lower_char :: "char \<Rightarrow> char" where
  "lower_char c =
     (case map_of (zip ''ABCDEFGHIJKLMNOPQRSTUVWXYZ'' ''abcdefghijklmnopqrstuvwxyz'') c of
        Some d \<Rightarrow> d
      | None \<Rightarrow> c)"

definition toLowerCase :: "string \<Rightarrow> string" where
  "toLowerCase s = map lower_char s"

definition is_space :: "char \<Rightarrow> bool" where
  "is_space c = (c \<in> set [CHR 0x09, CHR 0x0A, CHR 0x0B, CHR 0x0C, CHR 0x0D, CHR '' ''])"

definition trim :: "string \<Rightarrow> string" where
  "trim s = rev (dropWhile is_space (rev (dropWhile is_space s)))"

text \<open>
  \<open>v?.toLowerCase()\<close>: undefined for an absent or null value, the folded string for a
  string, and a TypeError for any other value (it has no such method).
\<close>

fun opt_toLowerCase :: "json \<Rightarrow> jsval result" where
  "opt_toLowerCase (Prim JUndefined) = Inr JUndefined"
| "opt_toLowerCase (Prim JNull) = Inr JUndefined"
| "opt_toLowerCase (Prim (JStr s)) = Inr (JStr (toLowerCase s))"
| "opt_toLowerCase v = Inl TypeError"

text \<open>\<open>typeof v === 'number'\<close> and \<open>typeof v === 'string'\<close>.\<close>

fun is_number :: "json \<Rightarrow> bool" where
  "is_number (Prim (JNum n)) = True"
| "is_number v = False"

fun is_string :: "json \<Rightarrow> bool" where
  "is_string (Prim (JStr s)) = True"
| "is_string v = False"

section \<open>Factor extractor (factorExtractor.js)\<close>

record factor_rule =
  check :: "answers \<Rightarrow> bool result"
  label :: string
  weight :: rat

definition one_of :: "jsval result \<Rightarrow> string list \<Rightarrow> bool result" where
  "one_of r options =
     (case r of Inl e \<Rightarrow> Inl e | Inr v \<Rightarrow> Inr (\<exists>s \<in> set options. v = JStr s))"

definition FACTOR_RULES :: "(string \<times> factor_rule) list" where
  "FACTOR_RULES =
    [(''smoking'',
        \<lparr>check = (\<lambda>a. Inr (smoker a = JBool True)),
         label = ''smoking'', weight = 1\<rparr>),
     (''poor_diet'',
        \<lparr>check = (\<lambda>a. one_of (opt_toLowerCase (Prim (diet a)))
                   [''high sugar'', ''junk'', ''fast food'', ''unhealthy'']),
         label = ''poor diet'', weight = 9 / 10\<rparr>),
     (''low_exercise'',
        \<lparr>check = (\<lambda>a. one_of (opt_toLowerCase (Prim (exercise a)))
                   [''rarely'', ''never'', ''sedentary'', ''none'']),
         label = ''low exercise'', weight = 85 / 100\<rparr>),
     (''excessive_alcohol'',
        \<lparr>check = (\<lambda>a. one_of (opt_toLowerCase (Prim (alcohol a)))
                   [''heavy'', ''frequent'', ''daily'']),
         label = ''excessive alcohol'', weight = 8 / 10\<rparr>),
     (''poor_sleep'',
        \<lparr>check = (\<lambda>a. case sleep a of
                     Prim (JNum n) \<Rightarrow> Inr (num_lt n (Num 6) \<or> num_gt n (Num 9))
                   | v \<Rightarrow> one_of (opt_toLowerCase v) [''poor'', ''bad'', ''irregular'']),
         label = ''poor sleep'', weight = 7 / 10\<rparr>),
     (''high_stress'',
        \<lparr>check = (\<lambda>a. one_of (opt_toLowerCase (Prim (stress a)))
                   [''high'', ''severe'', ''chronic'']),
         label = ''high stress'', weight = 75 / 100\<rparr>),
     (''obesity'',
        \<lparr>check = (\<lambda>a. case bmi a of
                     JNum n \<Rightarrow> Inr (num_ge n (Num 30))
                   | v \<Rightarrow> Inr False),
         label = ''obesity'', weight = 85 / 100\<rparr>),
     (''overweight'',
        \<lparr>check = (\<lambda>a. case bmi a of
                     JNum n \<Rightarrow> Inr (num_ge n (Num 25) \<and> num_lt n (Num 30))
                   | v \<Rightarrow> Inr False),
         label = ''overweight'', weight = 6 / 10\<rparr>),
     (''advanced_age'',
        \<lparr>check = (\<lambda>a. case age a of
                     JNum n \<Rightarrow> Inr (num_ge n (Num 60))
                   | v \<Rightarrow> Inr False),
         label = ''advanced age'', weight = 5 / 10\<rparr>),
     (''middle_age'',
        \<lparr>check = (\<lambda>a. case age a of
                     JNum n \<Rightarrow> Inr (num_ge n (Num 40) \<and> num_lt n (Num 60))
                   | v \<Rightarrow> Inr False),
         label = ''middle age'', weight = 3 / 10\<rparr>)]"

record factor_detail =
  detail_id :: string
  detail_label :: string
  detail_weight :: rat

text \<open>\<open>toFixed(2)\<close> followed by \<open>parseFloat\<close>: rounding to two decimals, ties upwards.\<close>

definition toFixed2 :: "rat \<Rightarrow> rat" where
  "toFixed2 q = of_int \<lfloor>q * 100 + 1 / 2\<rfloor> / 100"

text \<open>\<open>Object.keys(answers)\<close>: the fields that are present.\<close>

definition present_keys :: "answers \<Rightarrow> string list" where
  "present_keys a = map fst (filter (\<lambda>(k, v). v \<noteq> Prim JUndefined) (field_values a))"

definition nullish :: "jsval \<Rightarrow> bool" where
  "nullish v = (v = JUndefined \<or> v = JNull)"

definition calculateFactorConfidence :: "answers \<Rightarrow> string list \<Rightarrow> rat" where
  "calculateFactorConfidence a extractedFactors =
     (let c0 = 1;
          c1 = c0 - (1 / 10) * of_nat (length (filter nullish [smoker a, diet a, exercise a]));
          c2 = (if length extractedFactors = 0 \<and> length (present_keys a) < 3
                then c1 - 2 / 10 else c1)
      in max 0 (min 1 (toFixed2 c2)))"

record factor_result =
  factors :: "string list"
  factor_details :: "factor_detail list"
  factor_confidence :: rat

text \<open>The object \<open>{id: key, label: rule.label, weight: rule.weight}\<close> pushed for a matched rule.\<close>

definition detail_of :: "string \<times> factor_rule \<Rightarrow> factor_detail" where
  "detail_of kr =
     \<lparr>detail_id = fst kr, detail_label = label (snd kr), detail_weight = weight (snd kr)\<rparr>"

text \<open>The loop over \<open>Object.entries(FACTOR_RULES)\<close>: a rule whose check throws is skipped.\<close>

definition matched_rules :: "answers \<Rightarrow> (string \<times> factor_rule) list" where
  "matched_rules a = filter (\<lambda>(key, rule). check rule a = Inr True) FACTOR_RULES"

definition extractFactors :: "answers \<Rightarrow> factor_result" where
  "extractFactors a =
     (let matched = matched_rules a;
          factors0 = map (\<lambda>(key, rule). label rule) matched;
          factorDetails0 = map detail_of matched;
          factorDetails = Array_sort
             (\<lambda>x y. Num (detail_weight y - detail_weight x)) factorDetails0
      in \<lparr>factors = map detail_label factorDetails,
          factor_details = factorDetails,
          factor_confidence = calculateFactorConfidence a factors0\<rparr>)"


section \<open>Recommendation engine (recommendationEngine.js)\<close>

record recommendation =
  primary :: string
  details :: string
  priority :: int
  icon :: string

definition RECOMMENDATIONS :: "(string \<times> recommendation) list" where
  "RECOMMENDATIONS =
    [(''smoking'',
        \<lparr>primary = ''Quit smoking'',
         details = ''Consider nicotine replacement therapy or consult a healthcare provider for smoking cessation programs'',
         priority = 1, icon = ''cigarette-off''\<rparr>),
     (''poor diet'',
        \<lparr>primary = ''Improve your diet'',
         details = ''Reduce sugar intake, increase vegetables and whole grains, limit processed foods'',
         priority = 2, icon = ''apple''\<rparr>),
     (''low exercise'',
        \<lparr>primary = ''Increase physical activity'',
         details = ''Start with 30 minutes of walking daily, gradually increase intensity'',
         priority = 3, icon = ''footprints''\<rparr>),
     (''excessive alcohol'',
        \<lparr>primary = ''Reduce alcohol consumption'',
         details = ''Limit to moderate drinking or consider abstaining. Seek support if needed'',
         priority = 2, icon = ''wine-off''\<rparr>),
     (''poor sleep'',
        \<lparr>primary = ''Improve sleep habits'',
         details = ''Aim for 7-8 hours of quality sleep. Maintain consistent sleep schedule'',
         priority = 4, icon = ''moon''\<rparr>),
     (''high stress'',
        \<lparr>primary = ''Manage stress levels'',
         details = ''Practice relaxation techniques, consider meditation or yoga, take regular breaks'',
         priority = 4, icon = ''brain''\<rparr>),
     (''obesity'',
        \<lparr>primary = ''Work towards healthy weight'',
         details = ''Consult healthcare provider for personalized weight management plan'',
         priority = 2, icon = ''scale''\<rparr>),
     (''overweight'',
        \<lparr>primary = ''Consider weight management'',
         details = ''Focus on balanced diet and regular exercise for gradual weight loss'',
         priority = 5, icon = ''scale''\<rparr>),
     (''advanced age'',
        \<lparr>primary = ''Regular health checkups'',
         details = ''Schedule regular screenings and preventive care appointments'',
         priority = 6, icon = ''stethoscope''\<rparr>)]"

definition GENERAL_RECOMMENDATIONS :: "recommendation list" where
  "GENERAL_RECOMMENDATIONS =
    [\<lparr>primary = ''Stay hydrated'',
      details = ''Drink at least 8 glasses of water daily'',
      priority = 7, icon = ''droplet''\<rparr>,
     \<lparr>primary = ''Regular health checkups'',
      details = ''Schedule annual wellness visits with your healthcare provider'',
      priority = 8, icon = ''calendar-check''\<rparr>]"

text \<open>
  An entry of \<open>detailedRecommendations\<close>: \<open>{...rec, factor}\<close> for a record of the table,
  a general recommendation as it stands, or, when \<open>rec\<close> is an inherited function or
  object (which has no enumerable property of its own to spread), the object
  \<open>{factor}\<close> alone, whose \<open>primary\<close> and \<open>priority\<close> are undefined.
\<close>

datatype detailed =
    Specific recommendation string
  | General recommendation
  | Bare string

fun primary_of :: "detailed \<Rightarrow> string option" where
  "primary_of (Specific r f) = Some (primary r)"
| "primary_of (General r) = Some (primary r)"
| "primary_of (Bare f) = None"

fun priority_of :: "detailed \<Rightarrow> int option" where
  "priority_of (Specific r f) = Some (priority r)"
| "priority_of (General r) = Some (priority r)"
| "priority_of (Bare f) = None"

text \<open>The comparator \<open>(a, b) => a.priority - b.priority\<close>.\<close>

definition by_priority :: "detailed \<Rightarrow> detailed \<Rightarrow> jsnum" where
  "by_priority a b =
     (case (priority_of a, priority_of b) of
        (Some p, Some q) \<Rightarrow> Num (of_int (p - q))
      | _ \<Rightarrow> NaN)"

text \<open>
  One round of the loop over the factors, on the pair of the flat list
  \<open>recommendations\<close> and the list \<open>detailedRecommendations\<close>.
\<close>

fun add_recommendation ::
  "string option list \<times> detailed list \<Rightarrow> string \<Rightarrow> string option list \<times> detailed list" where
  "add_recommendation (recs, dets) factor =
     (case get_property RECOMMENDATIONS factor of
        Own rec \<Rightarrow> (recs @ [Some (primary rec)], dets @ [Specific rec factor])
      | Inherited \<Rightarrow> (recs @ [None], dets @ [Bare factor])
      | Missing \<Rightarrow> (recs, dets))"

fun add_general ::
  "string option list \<times> detailed list \<Rightarrow> recommendation \<Rightarrow> string option list \<times> detailed list" where
  "add_general (recs, dets) rec =
     (if Some (primary rec) \<notin> set recs
      then (recs @ [Some (primary rec)], dets @ [General rec])
      else (recs, dets))"

record recommendation_result =
  recommendations :: "string option list"
  detailed_recommendations :: "detailed list"

definition generateRecommendations :: "string list \<Rightarrow> string \<Rightarrow> recommendation_result" where
  "generateRecommendations fs riskLevel =
     (let (recs, dets) = foldl add_recommendation ([], []) fs;
          sorted_dets = Array_sort by_priority dets;
          (recs', dets') =
             (if riskLevel = ''high'' \<or> riskLevel = ''very high''
              then foldl add_general (recs, sorted_dets) GENERAL_RECOMMENDATIONS
              else (recs, sorted_dets));
          topRecommendations = take 5 dets'
      in \<lparr>recommendations = map primary_of topRecommendations,
          detailed_recommendations = topRecommendations\<rparr>)"

section \<open>More string operations\<close>

definition starts_with :: "string \<Rightarrow> string \<Rightarrow> bool" where
  "starts_with s p = (take (length p) s = p)"

text \<open>\<open>s.includes(sub)\<close>.\<close>

fun str_includes :: "string \<Rightarrow> string \<Rightarrow> bool" where
  "str_includes [] sub = (sub = [])"
| "str_includes (c # cs) sub = (starts_with (c # cs) sub \<or> str_includes cs sub)"

text \<open>\<open>s.split(c)\<close> for a one-character separator.\<close>

fun split_char :: "char \<Rightarrow> string \<Rightarrow> string list" where
  "split_char sep [] = [[]]"
| "split_char sep (c # cs) =
     (case split_char sep cs of
        [] \<Rightarrow> [[c]]
      | p # ps \<Rightarrow> if c = sep then [] # p # ps else (c # p) # ps)"

text \<open>The character class \<open>[:\s]\<close> and \<open>s.split(/[:\s]+/)\<close>.\<close>

definition is_sep :: "char \<Rightarrow> bool" where
  "is_sep c = (c = CHR '':'' \<or> is_space c)"

text \<open>
  \<open>split_seps in_sep s\<close>: \<open>in_sep\<close> tells that the character before \<open>s\<close> belonged to a
  separator, which the run of separators at the head of \<open>s\<close> then continues.
\<close>

fun split_seps :: "bool \<Rightarrow> string \<Rightarrow> string list" where
  "split_seps in_sep [] = [[]]"
| "split_seps in_sep (c # cs) =
     (if is_sep c then (if in_sep then split_seps True cs else [] # split_seps True cs)
      else (case split_seps False cs of
              [] \<Rightarrow> [[c]]
            | p # ps \<Rightarrow> (c # p) # ps))"

definition split_separators :: "string \<Rightarrow> string list" where
  "split_separators s = split_seps False s"

definition is_digit :: "char \<Rightarrow> bool" where
  "is_digit c = (c \<in> set ''0123456789'')"

definition digit_value :: "char \<Rightarrow> nat" where
  "digit_value c =
     (case map_of (zip ''0123456789'' [0, 1, 2, 3, 4, 5, 6, 7, 8, 9]) c of
        Some d \<Rightarrow> d
      | None \<Rightarrow> 0)"

definition digits_value :: "string \<Rightarrow> nat" where
  "digits_value ds = foldl (\<lambda>n c. 10 * n + digit_value c) 0 ds"

text \<open>
  \<open>parseInt(s, 10)\<close> on a string: leading white space, an optional sign, and the longest
  run of decimal digits; NaN when there is no digit.
\<close>

definition parseInt_string :: "string \<Rightarrow> jsnum" where
  "parseInt_string s =
     (let s1 = dropWhile is_space s;
          negative = (s1 \<noteq> [] \<and> hd s1 = CHR ''-'');
          s2 = (if s1 \<noteq> [] \<and> (hd s1 = CHR ''-'' \<or> hd s1 = CHR ''+'') then tl s1 else s1);
          ds = takeWhile is_digit s2
      in if ds = [] then NaN
         else Num (of_int (if negative then - int (digits_value ds) else int (digits_value ds))))"

definition parseInt :: "builtins \<Rightarrow> jsval \<Rightarrow> jsnum" where
  "parseInt B v = parseInt_string (ToString B v)"

definition parseFloat :: "builtins \<Rightarrow> jsval \<Rightarrow> jsnum" where
  "parseFloat B v = parseFloat_string B (ToString B v)"

text \<open>The same on a JSON value, whose conversion to a string may throw.\<close>

definition parseInt_json :: "builtins \<Rightarrow> json \<Rightarrow> jsnum result" where
  "parseInt_json B v = bind (ToString_json B v) (\<lambda>s. Inr (parseInt_string s))"

definition parseFloat_json :: "builtins \<Rightarrow> json \<Rightarrow> jsnum result" where
  "parseFloat_json B v = bind (ToString_json B v) (\<lambda>s. Inr (parseFloat_string B s))"

text \<open>\<open>a || b\<close> on primitive values.\<close>

definition js_or :: "jsval \<Rightarrow> jsval \<Rightarrow> jsval" where
  "js_or a b = (if truthy a then a else b)"

text \<open>
  The first match of \<open>/kw[:\s]+(\d+)/\<close> (or, with \<open>is_digit_or_dot\<close>, of
  \<open>/kw[:\s]+([\d.]+)/\<close>) in \<open>s\<close>: its capture group. The separators are matched
  greedily and are disjoint from the captured class, so there is a match at a position
  exactly when the keyword is followed by at least one separator and, after all of them,
  by a character of the class.
\<close>

fun match_field :: "(char \<Rightarrow> bool) \<Rightarrow> string \<Rightarrow> string \<Rightarrow> string option" where
  "match_field cls kw [] = None"
| "match_field cls kw (c # cs) =
     (let rest = drop (length kw) (c # cs);
          capture = takeWhile cls (dropWhile is_sep rest)
      in if starts_with (c # cs) kw \<and> rest \<noteq> [] \<and> is_sep (hd rest) \<and> capture \<noteq> []
         then Some capture
         else match_field cls kw cs)"

definition is_digit_or_dot :: "char \<Rightarrow> bool" where
  "is_digit_or_dot c = (is_digit c \<or> c = CHR ''.'')"


section \<open>Survey parser (surveyParser.js)\<close>

definition EXPECTED_FIELDS :: "string list" where
  "EXPECTED_FIELDS =
     [''age'', ''smoker'', ''exercise'', ''diet'', ''alcohol'', ''sleep'', ''stress'', ''bmi'']"

definition CORE_FIELDS :: "string list" where
  "CORE_FIELDS = [''age'', ''smoker'', ''exercise'', ''diet'']"

fun normalizeBoolean :: "json \<Rightarrow> jsval" where
  "normalizeBoolean (Prim (JBool b)) = JBool b"
| "normalizeBoolean (Prim (JStr s)) =
     (let lower = trim (toLowerCase s)
      in if lower \<in> set [''yes'', ''true'', ''y'', ''1'', ''yeah'', ''yep''] then JBool True
         else if lower \<in> set [''no'', ''false'', ''n'', ''0'', ''nope'', ''never''] then JBool False
         else JNull)"
| "normalizeBoolean v = JNull"

definition normalizeExercise :: "builtins \<Rightarrow> json \<Rightarrow> jsval result" where
  "normalizeExercise B v =
     (if \<not> truthy_json v then Inr JNull
      else bind (ToString_json B v) (\<lambda>str.
        let lower = trim (toLowerCase str)
        in if lower \<in> set [''never'', ''none'', ''rarely'', ''sedentary'', ''no'']
           then Inr (JStr ''rarely'')
           else if lower \<in> set [''sometimes'', ''occasional'', ''moderate'', ''1-2 times'',
                                  ''1-2x'', ''weekly'']
           then Inr (JStr ''sometimes'')
           else if lower \<in> set [''often'', ''regular'', ''regularly'', ''frequent'',
                                  ''3-4 times'', ''3-4x'', ''daily'']
           then Inr (JStr ''regularly'')
           else Inr (JStr lower)))"

definition normalizeDiet :: "builtins \<Rightarrow> json \<Rightarrow> jsval result" where
  "normalizeDiet B v =
     (if \<not> truthy_json v then Inr JNull
      else bind (ToString_json B v) (\<lambda>str.
        let lower = trim (toLowerCase str)
        in if str_includes lower ''high sugar'' \<or> str_includes lower ''junk''
              \<or> str_includes lower ''fast food'' \<or> str_includes lower ''unhealthy''
           then Inr (JStr ''high sugar'')
           else if str_includes lower ''balanced'' \<or> str_includes lower ''normal''
              \<or> str_includes lower ''mixed''
           then Inr (JStr ''balanced'')
           else if str_includes lower ''healthy'' \<or> str_includes lower ''vegetable''
              \<or> str_includes lower ''fruit'' \<or> str_includes lower ''whole''
           then Inr (JStr ''healthy'')
           else Inr (JStr lower)))"

text \<open>
  \<open>rawAnswers.field\<close> for one of the eight field names, none of which is a property of a
  prototype: undefined unless the value is an object that has the key. On null and
  undefined the access throws; \<open>parseJsonInput\<close> tests for that before its first access.
\<close>

fun get_field :: "json \<Rightarrow> string \<Rightarrow> json" where
  "get_field (JObj kvs) k = (case map_of kvs k of Some v \<Rightarrow> v | None \<Rightarrow> Prim JUndefined)"
| "get_field v k = Prim JUndefined"

definition normalizeAlcohol :: "builtins \<Rightarrow> json \<Rightarrow> jsval result" where
  "normalizeAlcohol B v =
     bind (ToString_json B v) (\<lambda>str.
       let val = toLowerCase str
       in if str_includes val ''heavy'' \<or> str_includes val ''frequent'' then Inr (JStr ''heavy'')
          else if str_includes val ''moderate'' \<or> str_includes val ''social''
          then Inr (JStr ''moderate'')
          else if str_includes val ''rarely'' \<or> str_includes val ''never''
               \<or> str_includes val ''none'' then Inr (JStr ''rarely'')
          else Inr (JStr val))"

text \<open>
  A field of \<open>answers\<close> is assigned only when the raw field is not undefined, so an
  unassigned key and the value undefined coincide.
\<close>

definition when_defined :: "json \<Rightarrow> 'a \<Rightarrow> (json \<Rightarrow> 'a result) \<Rightarrow> 'a result" where
  "when_defined raw absent f = (if raw \<noteq> Prim JUndefined then f raw else Inr absent)"

definition parseJsonInput :: "builtins \<Rightarrow> json \<Rightarrow> answers result" where
  "parseJsonInput B input =
     bind (case input of
             Prim (JStr s) \<Rightarrow>
               (case JSON_parse B s of None \<Rightarrow> Inl SyntaxError | Some v \<Rightarrow> Inr v)
           | v \<Rightarrow> Inr v)
       (\<lambda>rawAnswers.
          if rawAnswers = Prim JUndefined \<or> rawAnswers = Prim JNull then Inl TypeError
          else
          bind (when_defined (get_field rawAnswers ''age'') JUndefined
                 (\<lambda>v. bind (parseInt_json B v) (\<lambda>n. Inr (js_or (JNum n) JNull)))) (\<lambda>age'.
          bind (when_defined (get_field rawAnswers ''smoker'') JUndefined
                 (\<lambda>v. Inr (normalizeBoolean v))) (\<lambda>smoker'.
          bind (when_defined (get_field rawAnswers ''exercise'') JUndefined
                 (normalizeExercise B)) (\<lambda>exercise'.
          bind (when_defined (get_field rawAnswers ''diet'') JUndefined
                 (normalizeDiet B)) (\<lambda>diet'.
          bind (when_defined (get_field rawAnswers ''alcohol'') JUndefined
                 (normalizeAlcohol B)) (\<lambda>alcohol'.
          bind (when_defined (get_field rawAnswers ''sleep'') (Prim JUndefined)
                 (\<lambda>v. bind (parseInt_json B v)
                         (\<lambda>n. Inr (if truthy (JNum n) then Prim (JNum n) else v)))) (\<lambda>sleep'.
          bind (when_defined (get_field rawAnswers ''stress'') JUndefined
                 (\<lambda>v. bind (ToString_json B v) (\<lambda>str. Inr (JStr (toLowerCase str))))) (\<lambda>stress'.
          bind (when_defined (get_field rawAnswers ''bmi'') JUndefined
                 (\<lambda>v. bind (parseFloat_json B v) (\<lambda>n. Inr (js_or (JNum n) JNull)))) (\<lambda>bmi'.
          Inr \<lparr>age = age', smoker = smoker', exercise = exercise', diet = diet',
               alcohol = alcohol', sleep = sleep', stress = stress', bmi = bmi'\<rparr>)))))))))"

text \<open>One round of the loop of \<open>parseOcrText\<close>: the assignments a line makes.\<close>

definition parse_line :: "builtins \<Rightarrow> answers \<Rightarrow> string \<Rightarrow> answers result" where
  "parse_line B a line =
     (let lower = toLowerCase line;
          parts = split_separators line;
          a1 = (case match_field is_digit ''age'' lower of
                  Some ds \<Rightarrow> a\<lparr>age := JNum (parseInt_string ds)\<rparr>
                | None \<Rightarrow> a);
          a2 = (if str_includes lower ''smoker'' \<or> str_includes lower ''smoking''
                then a1\<lparr>smoker := normalizeBoolean (Prim (JStr (last parts)))\<rparr> else a1)
      in
      bind (if str_includes lower ''exercise'' \<or> str_includes lower ''activity''
               \<or> str_includes lower ''workout''
            then bind (normalizeExercise B (Prim (JStr (last parts))))
                   (\<lambda>v. Inr (a2\<lparr>exercise := v\<rparr>))
            else Inr a2) (\<lambda>a3.
      bind (if str_includes lower ''diet'' \<or> str_includes lower ''eating''
               \<or> str_includes lower ''food''
            then bind (normalizeDiet B (Prim (JStr (join '' '' (drop 1 parts))))) (\<lambda>v1.
                   if truthy v1 then Inr (a3\<lparr>diet := v1\<rparr>)
                   else bind (normalizeDiet B (Prim (JStr (last parts))))
                          (\<lambda>v2. Inr (a3\<lparr>diet := v2\<rparr>)))
            else Inr a3) (\<lambda>a4.
      let a5 = (if str_includes lower ''alcohol'' \<or> str_includes lower ''drinking''
                then a4\<lparr>alcohol := JStr (toLowerCase (last parts))\<rparr> else a4);
          a6 = (case match_field is_digit ''sleep'' lower of
                  Some ds \<Rightarrow> a5\<lparr>sleep := Prim (JNum (parseInt_string ds))\<rparr>
                | None \<Rightarrow> a5);
          a7 = (if str_includes lower ''stress''
                then a6\<lparr>stress := JStr (toLowerCase (last parts))\<rparr> else a6);
          a8 = (case match_field is_digit_or_dot ''bmi'' lower of
                  Some ds \<Rightarrow> a7\<lparr>bmi := JNum (parseFloat_string B ds)\<rparr>
                | None \<Rightarrow> a7)
      in Inr a8)))"

fun parse_lines :: "builtins \<Rightarrow> answers \<Rightarrow> string list \<Rightarrow> answers result" where
  "parse_lines B a [] = Inr a"
| "parse_lines B a (l # ls) = bind (parse_line B a l) (\<lambda>a'. parse_lines B a' ls)"

text \<open>\<open>text.split\<close> exists on strings only: any other argument throws a TypeError.\<close>

definition parseOcrText :: "builtins \<Rightarrow> json \<Rightarrow> answers result" where
  "parseOcrText B text =
     (case text of
        Prim (JStr t) \<Rightarrow>
          parse_lines B empty_answers
            (filter (\<lambda>l. l \<noteq> []) (map trim (split_char (CHR 0x0A) t)))
      | _ \<Rightarrow> Inl TypeError)"

definition calculateConfidence :: "answers \<Rightarrow> bool \<Rightarrow> rat" where
  "calculateConfidence a isOcr =
     (let parsedFields = map fst (filter (\<lambda>(k, v). v \<noteq> Prim JNull \<and> v \<noteq> Prim JUndefined)
                                     (field_values a));
          c1 = (if isOcr then 1 - 1 / 10 else 1);
          coreFieldsPresent = length (filter (\<lambda>f. f \<in> set parsedFields) CORE_FIELDS);
          c2 = c1 - of_nat (length CORE_FIELDS - coreFieldsPresent) * (5 / 100);
          nullCount = length (filter (\<lambda>(k, v). v = Prim JNull) (field_values a));
          c3 = c2 - of_nat nullCount * (2 / 100)
      in max 0 (min 1 (toFixed2 c3)))"

definition getMissingFields :: "answers \<Rightarrow> string list" where
  "getMissingFields a =
     filter (\<lambda>f. case map_of (field_values a) f of
                   Some v \<Rightarrow> v = Prim JUndefined \<or> v = Prim JNull
                 | None \<Rightarrow> True) CORE_FIELDS"

record parse_result =
  answers :: answers
  missing_fields :: "string list"
  confidence :: rat
  error :: "string option"

text \<open>
  The body of the \<open>try\<close> block of \<open>parseSurvey\<close>; the inner \<open>try\<close> falls back to the
  line scan when \<open>parseJsonInput\<close> throws on a string.
\<close>

definition parse_attempt :: "builtins \<Rightarrow> json \<Rightarrow> bool \<Rightarrow> answers result" where
  "parse_attempt B input isOcr =
     (if isOcr then parseOcrText B input
      else if is_string input then
        (case parseJsonInput B input of
           Inl e \<Rightarrow> parseOcrText B input
         | Inr a \<Rightarrow> Inr a)
      else parseJsonInput B input)"

text \<open>
  After the \<open>try\<close> block, \<open>getMissingFields\<close> and \<open>calculateConfidence\<close> read the
  object that the block has built; nothing there can throw.
\<close>

definition parseSurvey :: "builtins \<Rightarrow> json \<Rightarrow> bool \<Rightarrow> parse_result" where
  "parseSurvey B input isOcr =
     (case parse_attempt B input isOcr of
        Inl e \<Rightarrow>
          \<lparr>answers = empty_answers, missing_fields = CORE_FIELDS, confidence = 0,
           error = Some (''Failed to parse input: '' @ error_message B e)\<rparr>
      | Inr a \<Rightarrow>
          \<lparr>answers = a, missing_fields = getMissingFields a,
           confidence = calculateConfidence a isOcr, error = None\<rparr>)"

section \<open>Guardrails (guardrails.js)\<close>

definition MIN_CONFIDENCE :: rat where "MIN_CONFIDENCE = 3 / 10"
definition MAX_MISSING_PERCENTAGE :: rat where "MAX_MISSING_PERCENTAGE = 5 / 10"
definition AGE_MIN :: rat where "AGE_MIN = 0"
definition AGE_MAX :: rat where "AGE_MAX = 150"
definition BMI_MIN :: rat where "BMI_MIN = 10"
definition BMI_MAX :: rat where "BMI_MAX = 100"
definition SLEEP_MIN :: rat where "SLEEP_MIN = 0"
definition SLEEP_MAX :: rat where "SLEEP_MAX = 24"

text \<open>
  A warning object, by its \<open>type\<close> and \<open>message\<close>; the further property that repeats the
  offending field or value is left out.
\<close>

record warning =
  warning_type :: string
  message :: string

text \<open>
  The object a guardrail returns: \<open>{isValid, status, reason, missing_fields, warnings}\<close>,
  a property that the source leaves out being \<open>None\<close>.
\<close>

record guard_result =
  isValid :: bool
  guard_status :: "string option"
  guard_reason :: "string option"
  guard_missing_fields :: "string list option"
  warnings :: "warning list option"

definition failure :: "string \<Rightarrow> string \<Rightarrow> guard_result" where
  "failure st rs = \<lparr>isValid = False, guard_status = Some st, guard_reason = Some rs,
     guard_missing_fields = None, warnings = None\<rparr>"

definition generateWarnings :: "builtins \<Rightarrow> parse_result \<Rightarrow> warning list" where
  "generateWarnings B pr =
     (if missing_fields pr \<noteq> [] then
        [\<lparr>warning_type = ''missing_fields'',
          message = ''Some fields are missing: '' @ join '', '' (missing_fields pr)
                    @ ''. Results may be less accurate.''\<rparr>]
      else []) @
     (if confidence pr < 8 / 10 then
        [\<lparr>warning_type = ''low_confidence'',
          message = ''Some answers could not be parsed with high confidence.''\<rparr>]
      else []) @
     (if age (answers pr) \<noteq> JUndefined
         \<and> (js_lt B (age (answers pr)) 18 \<or> js_gt B (age (answers pr)) 100) then
        [\<lparr>warning_type = ''unusual_value'',
          message = ''Age value ('' @ ToString B (age (answers pr))
                    @ '') is outside typical range (18-100).''\<rparr>]
      else []) @
     (if bmi (answers pr) \<noteq> JUndefined
         \<and> (js_lt B (bmi (answers pr)) 15 \<or> js_gt B (bmi (answers pr)) 50) then
        [\<lparr>warning_type = ''unusual_value'',
          message = ''BMI value ('' @ ToString B (bmi (answers pr))
                    @ '') is outside typical range (15-50).''\<rparr>]
      else [])"

definition checkProfileCompleteness :: "builtins \<Rightarrow> parse_result \<Rightarrow> guard_result" where
  "checkProfileCompleteness B pr =
     (if error pr \<noteq> None \<and> error pr \<noteq> Some [] then
        failure ''parse_error'' (the (error pr))
      else if confidence pr < MIN_CONFIDENCE then
        failure ''low_confidence''
          (''Confidence too low ('' @ Number_toString B (of_int \<lfloor>confidence pr * 100 + 1 / 2\<rfloor>)
           @ ''%). Cannot reliably process input.'')
      else if of_nat (length (missing_fields pr)) / of_nat (length CORE_FIELDS)
              > MAX_MISSING_PERCENTAGE then
        (failure ''incomplete_profile''
           (''>'' @ Number_toString B (of_int \<lfloor>MAX_MISSING_PERCENTAGE * 100 + 1 / 2\<rfloor>)
            @ ''% fields missing''))
          \<lparr>guard_missing_fields := Some (missing_fields pr)\<rparr>
      else if length (filter (\<lambda>(k, v). v \<noteq> Prim JNull \<and> v \<noteq> Prim JUndefined)
                        (field_values (answers pr))) = 0 then
        failure ''no_data'' ''No valid survey data found''
      else
        \<lparr>isValid = True, guard_status = Some ''ok'', guard_reason = None,
         guard_missing_fields = None, warnings = Some (generateWarnings B pr)\<rparr>)"

definition validateInput :: "builtins \<Rightarrow> json \<Rightarrow> guard_result" where
  "validateInput B input =
     (if input = Prim JNull \<or> input = Prim JUndefined then
        failure ''invalid_input'' ''Input is null or undefined''
      else case input of
        Prim (JStr s) \<Rightarrow>
          (let trimmed = trim s
           in if length trimmed = 0 then failure ''empty_input'' ''Input is empty''
              else if starts_with trimmed ''{'' \<and> JSON_parse B trimmed = None then
                failure ''invalid_json''
                  (''Invalid JSON format: '' @ error_message B SyntaxError)
              else \<lparr>isValid = True, guard_status = None, guard_reason = None,
                    guard_missing_fields = None, warnings = None\<rparr>)
      | JObj kvs \<Rightarrow>
          (if length kvs = 0 then failure ''empty_input'' ''Input object is empty''
           else \<lparr>isValid = True, guard_status = None, guard_reason = None,
                 guard_missing_fields = None, warnings = None\<rparr>)
      | JArr xs \<Rightarrow>
          failure ''invalid_input'' ''Input cannot be an array. Expected object or string.''
      | _ \<Rightarrow> \<lparr>isValid = True, guard_status = None, guard_reason = None,
                guard_missing_fields = None, warnings = None\<rparr>)"

record correction =
  field :: string
  action :: string
  original :: jsval

text \<open>
  The clamping of a numeric field, on the pair of the field's value and the corrections
  made so far.
\<close>

definition clamp :: "string \<Rightarrow> rat \<Rightarrow> rat \<Rightarrow> jsval \<times> correction list \<Rightarrow> jsval \<times> correction list" where
  "clamp name lo hi vc =
     (case vc of (v, cs) \<Rightarrow>
        (case v of
           JNum n \<Rightarrow>
             if num_lt n (Num lo) then
               (JNum (Num lo), cs @ [\<lparr>field = name, action = ''clamped_to_min'', original = v\<rparr>])
             else if num_gt n (Num hi) then
               (JNum (Num hi), cs @ [\<lparr>field = name, action = ''clamped_to_max'', original = v\<rparr>])
             else (v, cs)
         | _ \<Rightarrow> (v, cs)))"

text \<open>
  The coercion of a field that is no number, by \<open>parseInt\<close> or \<open>parseFloat\<close>.
\<close>

definition coerce ::
  "string \<Rightarrow> (jsval \<Rightarrow> jsnum) \<Rightarrow> jsval \<times> correction list \<Rightarrow> jsval \<times> correction list" where
  "coerce name parse vc =
     (case vc of (v, cs) \<Rightarrow>
        if is_number (Prim v) then (v, cs)
        else let v' = js_or (JNum (parse v)) JNull
             in if v' \<noteq> JNull
                then (v', cs @ [\<lparr>field = name, action = ''type_conversion'', original = v\<rparr>])
                else (v', cs))"

record range_validation =
  range_isValid :: bool
  correctedAnswers :: answers
  corrections :: "correction list"

definition validateAnswerRanges :: "builtins \<Rightarrow> answers \<Rightarrow> range_validation" where
  "validateAnswerRanges B a =
     (let (age', cs1) =
            (if age a \<noteq> JUndefined \<and> age a \<noteq> JNull
             then (let (v, cs) = coerce ''age'' (parseInt B) (age a, [])
                   in if v \<noteq> JNull then clamp ''age'' AGE_MIN AGE_MAX (v, cs) else (v, cs))
             else (age a, []));
          (bmi', cs2) =
            (if bmi a \<noteq> JUndefined \<and> bmi a \<noteq> JNull
             then (let (v, cs) = coerce ''bmi'' (parseFloat B) (bmi a, cs1)
                   in if v \<noteq> JNull then clamp ''bmi'' BMI_MIN BMI_MAX (v, cs) else (v, cs))
             else (bmi a, cs1));
          (sleep', cs3) =
            (case sleep a of
               Prim (JNum n) \<Rightarrow>
                 (let (v, cs) = clamp ''sleep'' SLEEP_MIN SLEEP_MAX (JNum n, cs2)
                  in (Prim v, cs))
             | _ \<Rightarrow> (sleep a, cs2));
          (smoker', cs4) =
            (case smoker a of
               JStr s \<Rightarrow>
                 (let lower = toLowerCase s
                  in if lower \<in> set [''yes'', ''true'', ''1'', ''y''] then
                       (JBool True, cs3 @ [\<lparr>field = ''smoker'', action = ''normalized_to_boolean'',
                                            original = smoker a\<rparr>])
                     else if lower \<in> set [''no'', ''false'', ''0'', ''n''] then
                       (JBool False, cs3 @ [\<lparr>field = ''smoker'', action = ''normalized_to_boolean'',
                                             original = smoker a\<rparr>])
                     else (smoker a, cs3))
             | _ \<Rightarrow> (smoker a, cs3))
      in \<lparr>range_isValid = (length cs4 = 0),
          correctedAnswers = a\<lparr>age := age', bmi := bmi', sleep := sleep', smoker := smoker'\<rparr>,
          corrections = cs4\<rparr>)"

text \<open>
  \<open>/[^\x00-\x7F]{5,}/\<close>: a run of at least \<open>n\<close> characters of a class, here of the
  characters whose top bit \<open>digit7\<close> is set.
  \<open>/(.)\1{5,}/\<close>: a character other than a line terminator, \<open>n\<close> times in a row.
\<close>

fun has_run :: "nat \<Rightarrow> (char \<Rightarrow> bool) \<Rightarrow> string \<Rightarrow> bool" where
  "has_run n cls [] = False"
| "has_run n cls (c # cs) = (n \<le> length (takeWhile cls (c # cs)) \<or> has_run n cls cs)"

fun has_repeat :: "nat \<Rightarrow> string \<Rightarrow> bool" where
  "has_repeat n [] = False"
| "has_repeat n (c # cs) =
     ((c \<noteq> CHR 0x0A \<and> c \<noteq> CHR 0x0D \<and> n \<le> length (takeWhile (\<lambda>d. d = c) (c # cs)))
      \<or> has_repeat n cs)"

record ocr_validation =
  ocr_isValid :: bool
  ocr_reason :: "string option"
  ocr_warnings :: "warning list"
  keywordsFound :: "string list"

definition validateOcrText :: "json \<Rightarrow> ocr_validation" where
  "validateOcrText text =
     (case text of
        Prim (JStr t) \<Rightarrow>
          (if t = [] then
             \<lparr>ocr_isValid = False, ocr_reason = Some ''OCR text is empty or invalid'',
              ocr_warnings = [], keywordsFound = []\<rparr>
           else let trimmed = trim t in
             if length trimmed < 10 then
               \<lparr>ocr_isValid = False,
                ocr_reason = Some ''OCR text is too short to contain valid survey data'',
                ocr_warnings = [], keywordsFound = []\<rparr>
             else
               (let artifacts =
                      (if has_run 5 digit7 trimmed \<or> has_repeat 6 trimmed
                       then [\<lparr>warning_type = ''ocr_artifacts'',
                              message = ''OCR text may contain recognition artifacts''\<rparr>]
                       else []);
                    surveyKeywords = [''age'', ''smoker'', ''smoking'', ''exercise'', ''diet'',
                                      ''sleep'', ''stress''];
                    foundKeywords = filter (\<lambda>kw. str_includes (toLowerCase trimmed) kw)
                                      surveyKeywords
                in \<lparr>ocr_isValid = True, ocr_reason = None,
                    ocr_warnings = artifacts @
                      (if length foundKeywords = 0
                       then [\<lparr>warning_type = ''no_survey_keywords'',
                              message = ''OCR text does not contain recognizable survey fields''\<rparr>]
                       else []),
                    keywordsFound = foundKeywords\<rparr>))
      | _ \<Rightarrow>
          \<lparr>ocr_isValid = False, ocr_reason = Some ''OCR text is empty or invalid'',
           ocr_warnings = [], keywordsFound = []\<rparr>)"

section \<open>Pipeline (pipeline.js) and the HTTP handlers (server.js)\<close>

text \<open>
  \<open>createErrorResponse(status, reason, extras)\<close>; time stamps are not modelled.
\<close>

record error_response =
  status :: string
  reason :: string
  error_missing_fields :: "string list option"
  partial_parse :: "(answers \<times> rat) option"

definition createErrorResponse :: "string \<Rightarrow> string \<Rightarrow> error_response" where
  "createErrorResponse st rs =
     \<lparr>status = st, reason = rs, error_missing_fields = None, partial_parse = None\<rparr>"

text \<open>
  The success payload, as the results of the stages it is assembled from; its
  \<open>status\<close> is \<open>ok\<close>. All the fields that \<open>ensureSchemaCompliance\<close> requires are set,
  so it returns the payload as it is.
\<close>

record payload =
  payload_answers :: answers
  payload_missing_fields :: "string list"
  parse_confidence :: rat
  payload_corrections :: "correction list"
  payload_factors :: factor_result
  payload_risk :: risk_result
  payload_recommendations :: recommendation_result
  payload_warnings :: "warning list"

text \<open>A \<open>StepResult\<close>, without its data and its time stamp.\<close>

record step_result =
  step :: string
  step_success :: bool
  step_error :: "string option"

record pipeline_result =
  success :: bool
  steps :: "step_result list"
  data :: "payload option"
  pipeline_error :: "error_response option"

text \<open>
  \<open>runAnalysisPipeline\<close>. The calls of \<open>validateSchema\<close> only log; no call inside the
  \<open>try\<close> block throws on the values modelled here, so the \<open>catch\<close> that reports
  \<open>pipeline_error\<close> has no branch in the model. The options \<open>validateSchemas\<close> and
  \<open>stopOnWarning\<close> do not change the result.
\<close>

definition runAnalysisPipeline :: "builtins \<Rightarrow> json \<Rightarrow> bool \<Rightarrow> pipeline_result" where
  "runAnalysisPipeline B input isOcr =
     (let inputValidation = validateInput B input in
      if \<not> isValid inputValidation then
        \<lparr>success = False,
         steps = [\<lparr>step = ''input_validation'', step_success = False,
                   step_error = guard_reason inputValidation\<rparr>],
         data = None,
         pipeline_error = Some (createErrorResponse (the (guard_status inputValidation))
                                  (the (guard_reason inputValidation)))\<rparr>
      else
        let steps0 = [\<lparr>step = ''input_validation'', step_success = True, step_error = None\<rparr>];
            parseResult = parseSurvey B input isOcr;
            completenessCheck = checkProfileCompleteness B parseResult in
        if \<not> isValid completenessCheck then
          \<lparr>success = False,
           steps = steps0 @ [\<lparr>step = ''parse'', step_success = False,
                               step_error = guard_reason completenessCheck\<rparr>],
           data = None,
           pipeline_error = Some
             ((createErrorResponse (the (guard_status completenessCheck))
                 (the (guard_reason completenessCheck)))
              \<lparr>error_missing_fields :=
                  Some (case guard_missing_fields completenessCheck of
                          Some m \<Rightarrow> m
                        | None \<Rightarrow> missing_fields parseResult),
                partial_parse := Some (answers parseResult, confidence parseResult)\<rparr>)\<rparr>
        else
          let rangeValidation = validateAnswerRanges B (answers parseResult);
              answers1 = (if \<not> range_isValid rangeValidation
                          then correctedAnswers rangeValidation else answers parseResult);
              corrections1 = (if \<not> range_isValid rangeValidation
                              then corrections rangeValidation else []);
              factorResult = extractFactors answers1;
              riskResult = classifyRisk B (factors factorResult) answers1;
              recResult = generateRecommendations (factors factorResult) (risk_level riskResult)
          in \<lparr>success = True,
              steps = steps0 @
                [\<lparr>step = ''parse'', step_success = True, step_error = None\<rparr>,
                 \<lparr>step = ''factors'', step_success = True, step_error = None\<rparr>,
                 \<lparr>step = ''risk'', step_success = True, step_error = None\<rparr>,
                 \<lparr>step = ''recommendations'', step_success = True, step_error = None\<rparr>],
              data = Some
                \<lparr>payload_answers = answers1,
                 payload_missing_fields = missing_fields parseResult,
                 parse_confidence = confidence parseResult,
                 payload_corrections = corrections1,
                 payload_factors = factorResult,
                 payload_risk = riskResult,
                 payload_recommendations = recResult,
                 payload_warnings = (case warnings completenessCheck of
                                       Some w \<Rightarrow> w | None \<Rightarrow> [])\<rparr>,
              pipeline_error = None\<rparr>)"

record http_response =
  statusCode :: nat
  body_error :: "error_response option"
  body_data :: "payload option"

text \<open>
  The handler of \<open>POST /api/analyze\<close>, on the \<open>input\<close>, the truth value of \<open>isOcr\<close>
  and the \<open>options\<close> of the body. With \<open>null\<close> for the options, reading
  \<open>options.validateSchemas\<close> throws, and the error handler of the server answers 500,
  with the message that it shows outside development mode.
\<close>

definition analyze :: "builtins \<Rightarrow> json \<Rightarrow> bool \<Rightarrow> json \<Rightarrow> http_response" where
  "analyze B input isOcr options =
     (if options = Prim JNull then
        \<lparr>statusCode = 500,
         body_error = Some (createErrorResponse ''internal_error'' ''Internal server error''),
         body_data = None\<rparr>
      else
      let pipelineResult = runAnalysisPipeline B input isOcr in
      if \<not> success pipelineResult then
        \<lparr>statusCode = (if map_option status (pipeline_error pipelineResult)
                           = Some ''invalid_input'' then 400 else 200),
         body_error = pipeline_error pipelineResult,
         body_data = None\<rparr>
      else \<lparr>statusCode = 200, body_error = None, body_data = data pipelineResult\<rparr>)"

text \<open>The handler of \<open>POST /api/analyze/legacy\<close>.\<close>

definition analyze_legacy :: "builtins \<Rightarrow> json \<Rightarrow> bool \<Rightarrow> http_response" where
  "analyze_legacy B input isOcr =
     (let inputValidation = validateInput B input in
      if \<not> isValid inputValidation then
        \<lparr>statusCode = 400,
         body_error = Some (createErrorResponse (the (guard_status inputValidation))
                              (the (guard_reason inputValidation))),
         body_data = None\<rparr>
      else if isOcr \<and> is_string input \<and> \<not> ocr_isValid (validateOcrText input) then
        \<lparr>statusCode = 400,
         body_error = Some (createErrorResponse ''invalid_ocr''
                              (the (ocr_reason (validateOcrText input)))),
         body_data = None\<rparr>
      else
        let parseResult = parseSurvey B input isOcr;
            completenessCheck = checkProfileCompleteness B parseResult in
        if \<not> isValid completenessCheck then
          \<lparr>statusCode = 200,
           body_error = Some
             ((createErrorResponse (the (guard_status completenessCheck))
                 (the (guard_reason completenessCheck)))
              \<lparr>error_missing_fields :=
                  Some (case guard_missing_fields completenessCheck of
                          Some m \<Rightarrow> m
                        | None \<Rightarrow> missing_fields parseResult),
                partial_parse := Some (answers parseResult, confidence parseResult)\<rparr>),
           body_data = None\<rparr>
        else
          let rangeValidation = validateAnswerRanges B (answers parseResult);
              answers1 = correctedAnswers rangeValidation;
              factorResult = extractFactors answers1;
              riskResult = classifyRisk B (factors factorResult) answers1;
              recResult = generateRecommendations (factors factorResult) (risk_level riskResult)
          in \<lparr>statusCode = 200, body_error = None,
              body_data = Some
                \<lparr>payload_answers = answers1,
                 payload_missing_fields = missing_fields parseResult,
                 parse_confidence = confidence parseResult,
                 payload_corrections = corrections rangeValidation,
                 payload_factors = factorResult,
                 payload_risk = riskResult,
                 payload_recommendations = recResult,
                 payload_warnings = (case warnings completenessCheck of
                                       Some w \<Rightarrow> w | None \<Rightarrow> [])\<rparr>\<rparr>)"

section \<open>A concrete choice of the engine's conversions\<close>

text \<open>
  Used only to run the model on concrete inputs, none of which is JSON text: a
  \<open>JSON.parse\<close> that rejects its argument, and conversions that return a fixed value.
\<close>

definition test_builtins :: builtins where
  "test_builtins =
     \<lparr>JSON_parse = (\<lambda>s. None),
      Number_toString = (\<lambda>q. ''?''),
      StringToNumber = (\<lambda>s. NaN),
      parseFloat_string = (\<lambda>s. NaN),
      error_message = (\<lambda>e. ''?'')\<rparr>"

section \<open>Notions used in the statements\<close>

text \<open>The own entry of a label in \<open>FACTOR_SCORES\<close>, 0 for a label without one.\<close>

definition factor_score :: "string \<Rightarrow> int" where
  "factor_score f = (case map_of FACTOR_SCORES f of Some n \<Rightarrow> n | None \<Rightarrow> 0)"

text \<open>The rule stored under a key of \<open>FACTOR_RULES\<close> matches the answers.\<close>

definition rule_matches :: "answers \<Rightarrow> string \<Rightarrow> bool" where
  "rule_matches a key =
     (case map_of FACTOR_RULES key of
        Some rule \<Rightarrow> check rule a = Inr True
      | None \<Rightarrow> False)"

text \<open>The weight that \<open>FACTOR_RULES\<close> gives to the rule with a label.\<close>

definition rule_weight :: "string \<Rightarrow> rat" where
  "rule_weight l =
     (case find (\<lambda>kr. label (snd kr) = l) FACTOR_RULES of
        Some kr \<Rightarrow> weight (snd kr)
      | None \<Rightarrow> 0)"

text \<open>
  The entries that the factors with a recommendation of their own contribute, in the
  order of the factors; and the priority of an entry that has one.
\<close>

definition specific_entries :: "string list \<Rightarrow> detailed list" where
  "specific_entries fs =
     concat (map (\<lambda>f. case map_of RECOMMENDATIONS f of
                       Some r \<Rightarrow> [Specific r f]
                     | None \<Rightarrow> []) fs)"

definition the_priority :: "detailed \<Rightarrow> int" where
  "the_priority d = (case priority_of d of Some p \<Rightarrow> p | None \<Rightarrow> 0)"

section \<open>Properties of the risk classifier\<close>

lemma foldl_add_factor_Text: "foldl add_factor Text fs = Text"
  by (induction fs) auto

lemma add_factor_known:
  "f \<notin> set Object_prototype_keys \<Longrightarrow> add_factor (Number s) f = Number (s + factor_score f)"
  by (auto simp: get_property_def factor_score_def split: option.splits)

lemma foldl_add_factor_known:
  "\<forall>f\<in>set fs. f \<notin> set Object_prototype_keys \<Longrightarrow>
   foldl add_factor (Number s) fs = Number (s + sum_list (map factor_score fs))"
proof (induction fs arbitrary: s)
  case Nil
  then show ?case by simp
next
  case (Cons f fs)
  then show ?case
    by (simp add: add_factor_known add.assoc del: add_factor.simps)
qed

lemma Math_round_of_int: "Math_round (Num (of_int k)) = Num (of_int k)"
proof -
  have "\<lfloor>(of_int k :: rat) + 1 / 2\<rfloor> = k" by linarith
  then show ?thesis by simp
qed

lemma getRiskLevel_of_int:
  "getRiskLevel (Num (of_int k)) =
     (if k < 25 then ''low'' else if k < 50 then ''moderate''
      else if k < 75 then ''high'' else ''very high'')"
proof -
  have "((of_int k :: rat) < 25) = (k < 25)" "((of_int k :: rat) < 50) = (k < 50)"
       "((of_int k :: rat) < 75) = (k < 75)" by linarith+
  then show ?thesis by (simp add: getRiskLevel_def)
qed

lemma classifyRisk_Number:
  assumes "foldl add_factor (Number (0 + getAgeBaseRisk B (age a))) fs = Number s"
  shows "score (classifyRisk B fs a) = Num (of_int (min 100 s))"
    and "risk_level (classifyRisk B fs a) = getRiskLevel (Num (of_int (min 100 s)))"
proof -
  have m: "Math_min_100 (foldl add_factor (Number (0 + getAgeBaseRisk B (age a))) fs)
      = Num (of_int (min 100 s))"
    by (simp only: assms Math_min_100.simps)
  show "score (classifyRisk B fs a) = Num (of_int (min 100 s))"
    by (simp only: classifyRisk_def Let_def m Math_round_of_int risk_result.simps)
  show "risk_level (classifyRisk B fs a) = getRiskLevel (Num (of_int (min 100 s)))"
    by (simp only: classifyRisk_def Let_def m risk_result.simps)
qed

lemma classifyRisk_Text:
  assumes "foldl add_factor (Number (0 + getAgeBaseRisk B (age a))) fs = Text"
  shows "score (classifyRisk B fs a) = NaN"
    and "risk_level (classifyRisk B fs a) = ''very high''"
  using assms by (simp_all add: classifyRisk_def Let_def getRiskLevel_def)

text \<open>
  On the factor lists none of whose labels names a property of \<open>Object.prototype\<close>
  (among them all the lists that \<open>extractFactors\<close> returns), the score is the capped
  sum and the level follows the thresholds.
\<close>

lemma classifyRisk_known_labels:
  fixes B fs a
  assumes "\<forall>f\<in>set fs. f \<notin> set Object_prototype_keys"
  defines "k \<equiv> min 100 (getAgeBaseRisk B (age a) + sum_list (map factor_score fs))"
  shows "score (classifyRisk B fs a) = Num (of_int k)"
    and "risk_level (classifyRisk B fs a) =
      (if k < 25 then ''low'' else if k < 50 then ''moderate''
       else if k < 75 then ''high'' else ''very high'')"
proof -
  have f: "foldl add_factor (Number (0 + getAgeBaseRisk B (age a))) fs
      = Number (getAgeBaseRisk B (age a) + sum_list (map factor_score fs))"
    using foldl_add_factor_known [OF assms(1)] by simp
  show "score (classifyRisk B fs a) = Num (of_int k)"
    unfolding k_def by (rule classifyRisk_Number(1) [OF f])
  show "risk_level (classifyRisk B fs a) =
      (if k < 25 then ''low'' else if k < 50 then ''moderate''
       else if k < 75 then ''high'' else ''very high'')"
    unfolding k_def classifyRisk_Number(2) [OF f] by (rule getRiskLevel_of_int)
qed

lemma classifyRisk_known_labels_range:
  "0 \<le> min 100 (getAgeBaseRisk B v + sum_list (map factor_score fs)) \<and>
   min 100 (getAgeBaseRisk B v + sum_list (map factor_score fs)) \<le> 100"
proof -
  have "0 \<le> sum_list (map factor_score fs)"
    by (rule sum_list_nonneg) (auto simp: factor_score_def FACTOR_SCORES_def)
  moreover have "0 \<le> getAgeBaseRisk B v" by (simp add: getAgeBaseRisk_def)
  ultimately show ?thesis by simp
qed

lemma getAgeBaseRisk_number:
  "getAgeBaseRisk B (JNum (Num n)) =
     (if n < 30 then 0 else if n < 40 then 5 else if n < 50 then 10
      else if n < 60 then 15 else if n < 70 then 20 else 25)"
  by (simp add: getAgeBaseRisk_def js_lt_def)

lemma getAgeBaseRisk_unknown:
  "getAgeBaseRisk B JUndefined = 0" "getAgeBaseRisk B JNull = 0"
  by (simp_all add: getAgeBaseRisk_def)

lemma getAgeBaseRisk_range: "0 \<le> getAgeBaseRisk B v \<and> getAgeBaseRisk B v \<le> 25"
  by (simp add: getAgeBaseRisk_def)

lemma factor_score_nonneg: "0 \<le> factor_score f"
  by (simp add: factor_score_def FACTOR_SCORES_def)

text \<open>
  C1. The score is the capped sum of the age base risk and the scores of the table, with 0
  for a label that the table does not know. The code misses this at a label that names a
  property of \<open>Object.prototype\<close>: the lookup returns the inherited function, \<open>|| 0\<close>
  keeps it, and the sum becomes a string. At the factor list \<open>["constructor"]\<close> the
  score is NaN, no integer of [0, 100], and the level is \<open>very high\<close>, whatever the
  answers are.
\<close>

theorem classifyRisk_inherited_label:
  "score (classifyRisk B [''constructor''] a) = NaN \<and>
   risk_level (classifyRisk B [''constructor''] a) = ''very high'' \<and>
   map_of FACTOR_SCORES ''constructor'' = None"
  by (simp add: classifyRisk_def Let_def get_property_def FACTOR_SCORES_def
      Object_prototype_keys_def getRiskLevel_def)

text \<open>
  C9. Appending a factor whose score in the table is strictly positive never decreases
  the score: the new score is not below the old one, and an old numeric score is followed
  by a numeric score at least as large.
\<close>

theorem classifyRisk_monotone:
  assumes "get_property FACTOR_SCORES f = Own n" and "0 < n"
  shows "\<not> num_lt (score (classifyRisk B (fs @ [f]) a)) (score (classifyRisk B fs a)) \<and>
    (\<forall>k. score (classifyRisk B fs a) = Num k \<longrightarrow>
       (\<exists>k'. score (classifyRisk B (fs @ [f]) a) = Num k' \<and> k \<le> k'))"
proof (cases "foldl add_factor (Number (0 + getAgeBaseRisk B (age a))) fs")
  case (Number s)
  have le: "(of_int (min 100 s) :: rat) \<le> of_int (min 100 (s + n))"
    using assms(2) by simp
  have "foldl add_factor (Number (0 + getAgeBaseRisk B (age a))) (fs @ [f]) = Number (s + n)"
    using Number assms by simp
  note new = classifyRisk_Number(1) [OF this]
  note old = classifyRisk_Number(1) [OF Number]
  show ?thesis unfolding new old using le assms(2) by simp
next
  case Text
  have "foldl add_factor (Number (0 + getAgeBaseRisk B (age a))) (fs @ [f]) = Text"
    using Text by simp
  note new = classifyRisk_Text(1) [OF this]
  note old = classifyRisk_Text(1) [OF Text]
  show ?thesis unfolding new old by simp
qed

theorem classifyRisk_monotone_witness:
  "get_property FACTOR_SCORES ''smoking'' = Own 25 \<and> (0::int) < 25 \<and>
   score (classifyRisk test_builtins [''poor diet''] empty_answers) = Num 18 \<and>
   score (classifyRisk test_builtins ([''poor diet''] @ [''smoking'']) empty_answers) = Num 43 \<and>
   \<not> num_lt (score (classifyRisk test_builtins ([''poor diet''] @ [''smoking'']) empty_answers))
           (score (classifyRisk test_builtins [''poor diet''] empty_answers))"
proof -
  have h: "get_property FACTOR_SCORES ''smoking'' = Own 25"
    by (simp add: get_property_def FACTOR_SCORES_def)
  have s: "score (classifyRisk test_builtins [''poor diet''] empty_answers) = Num 18"
    "score (classifyRisk test_builtins ([''poor diet''] @ [''smoking'']) empty_answers) = Num 43"
    by (simp_all add: classifyRisk_known_labels(1) Object_prototype_keys_def
        factor_score_def FACTOR_SCORES_def getAgeBaseRisk_def empty_answers_def)
  from classifyRisk_monotone [OF h, of test_builtins "[''poor diet'']" empty_answers] h s
  show ?thesis by simp
qed

section \<open>Properties of the factor extractor\<close>

lemma insert_by_key:
  "insert_by (\<lambda>x y. Num (key y - key x)) x ys = insort_key (\<lambda>d. - key d) x ys"
  by (induction ys) (auto simp: num_gt_def)

lemma Array_sort_key:
  "Array_sort (\<lambda>x y. Num (key y - key x)) xs = sort_key (\<lambda>d. - (key d :: rat)) xs"
  by (simp add: Array_sort_def sort_key_def insert_by_key [abs_def])

lemma factor_details_eq:
  "factor_details (extractFactors a) =
     sort_key (\<lambda>d. - detail_weight d) (map detail_of (matched_rules a))"
  by (simp add: extractFactors_def Let_def Array_sort_key)

lemma factors_eq:
  "factors (extractFactors a) = map detail_label (factor_details (extractFactors a))"
  by (simp add: extractFactors_def Let_def)

lemma factor_details_sorted:
  "sorted_wrt (\<lambda>x y. detail_weight x \<ge> detail_weight y) (factor_details (extractFactors a))"
proof -
  have "sorted (map (\<lambda>d. - detail_weight d) (factor_details (extractFactors a)))"
    unfolding factor_details_eq by (rule sorted_sort_key)
  then show ?thesis by (simp add: sorted_map)
qed

lemma factor_details_stable:
  "filter (\<lambda>d. detail_weight d = w) (factor_details (extractFactors a)) =
   filter (\<lambda>d. detail_weight d = w) (map detail_of (matched_rules a))"
proof -
  have "filter (\<lambda>d. - detail_weight d = - w) (factor_details (extractFactors a)) =
   filter (\<lambda>d. - detail_weight d = - w) (map detail_of (matched_rules a))"
    unfolding factor_details_eq by (rule sort_key_stable)
  then show ?thesis by simp
qed

lemma matched_details_85:
  "map detail_label
     (filter (\<lambda>d. detail_weight d = 85 / 100) (map detail_of (matched_rules a))) =
     (if rule_matches a ''low_exercise'' then [''low exercise''] else []) @
     (if rule_matches a ''obesity'' then [''obesity''] else [])"
proof -
  have h1: "filter (\<lambda>d. detail_weight d = 85 / 100) (map detail_of (matched_rules a)) =
      map detail_of
        (filter (\<lambda>kr. weight (snd kr) = 85 / 100 \<and> check (snd kr) a = Inr True) FACTOR_RULES)"
    by (simp add: matched_rules_def filter_map comp_def detail_of_def case_prod_beta conj_commute)
  have h2: "map detail_label (map detail_of
        (filter (\<lambda>kr. weight (snd kr) = 85 / 100 \<and> check (snd kr) a = Inr True)
           FACTOR_RULES)) =
     (if rule_matches a ''low_exercise'' then [''low exercise''] else []) @
     (if rule_matches a ''obesity'' then [''obesity''] else [])"
    by (simp add: FACTOR_RULES_def detail_of_def rule_matches_def)
  show ?thesis unfolding h1 by (rule h2)
qed

lemma labels_of_weight_85:
  "d \<in> detail_of ` set FACTOR_RULES \<Longrightarrow>
     (detail_label d = ''low exercise'' \<or> detail_label d = ''obesity'')
       = (detail_weight d = 85 / 100)"
  by (auto simp: FACTOR_RULES_def detail_of_def)

lemma set_factor_details:
  "set (factor_details (extractFactors a)) = detail_of ` set (matched_rules a)"
  by (simp add: factor_details_eq)

lemma matched_subset: "set (matched_rules a) \<subseteq> set FACTOR_RULES"
  by (auto simp: matched_rules_def)

lemma mem_factors_iff:
  "(l \<in> set (factors (extractFactors a))) =
     (\<exists>kr \<in> set FACTOR_RULES. label (snd kr) = l \<and> check (snd kr) a = Inr True)"
proof -
  have h: "detail_label ` detail_of ` set (matched_rules a) =
      (\<lambda>kr. label (snd kr)) ` {kr \<in> set FACTOR_RULES. check (snd kr) a = Inr True}"
    by (simp add: matched_rules_def detail_of_def image_image case_prod_beta)
  show ?thesis unfolding factors_eq set_map set_factor_details h by auto
qed

lemma mem_factors:
  "(''low exercise'' \<in> set (factors (extractFactors a))) = rule_matches a ''low_exercise''"
  "(''obesity'' \<in> set (factors (extractFactors a))) = rule_matches a ''obesity''"
  unfolding mem_factors_iff
  by (simp_all add: FACTOR_RULES_def rule_matches_def)

lemma factors_ties:
  "filter (\<lambda>l. l = ''low exercise'' \<or> l = ''obesity'') (factors (extractFactors a)) =
     filter (\<lambda>l. l \<in> set (factors (extractFactors a))) [''low exercise'', ''obesity'']"
proof -
  let ?S = "factor_details (extractFactors a)"
  have "filter (\<lambda>l. l = ''low exercise'' \<or> l = ''obesity'') (factors (extractFactors a)) =
      map detail_label
        (filter (\<lambda>d. detail_label d = ''low exercise'' \<or> detail_label d = ''obesity'') ?S)"
    by (simp add: factors_eq filter_map comp_def)
  also have "filter (\<lambda>d. detail_label d = ''low exercise'' \<or> detail_label d = ''obesity'') ?S =
      filter (\<lambda>d. detail_weight d = 85 / 100) ?S"
  proof (rule filter_cong [OF refl])
    fix d assume "d \<in> set ?S"
    then have "d \<in> detail_of ` set FACTOR_RULES"
      using matched_subset [of a] by (auto simp: set_factor_details)
    then show "(detail_label d = ''low exercise'' \<or> detail_label d = ''obesity'')
        = (detail_weight d = 85 / 100)"
      by (rule labels_of_weight_85)
  qed
  also have "\<dots> = filter (\<lambda>d. detail_weight d = 85 / 100) (map detail_of (matched_rules a))"
    by (rule factor_details_stable)
  also have "map detail_label \<dots> =
     (if rule_matches a ''low_exercise'' then [''low exercise''] else []) @
     (if rule_matches a ''obesity'' then [''obesity''] else [])"
    by (rule matched_details_85)
  also have "\<dots> =
     filter (\<lambda>l. l \<in> set (factors (extractFactors a))) [''low exercise'', ''obesity'']"
    by (simp add: mem_factors)
  finally show ?thesis .
qed

lemma insort_key_image:
  "insort_key f (g x) (map g ys) = map g (insort_key (\<lambda>y. f (g y)) x ys)"
  by (induction ys) simp_all

lemma sort_key_image:
  "sort_key f (map g xs) = map g (sort_key (\<lambda>y. f (g y)) xs)"
  by (induction xs) (simp_all add: insort_key_image)

lemma factor_details_table:
  "factor_details (extractFactors a) =
     map detail_of (sort_key (\<lambda>kr. - weight (snd kr)) (matched_rules a))"
  unfolding factor_details_eq by (simp add: sort_key_image detail_of_def)

lemma factors_table:
  "factors (extractFactors a) =
     map (\<lambda>kr. label (snd kr)) (sort_key (\<lambda>kr. - weight (snd kr)) (matched_rules a))"
  unfolding factors_eq factor_details_table by (simp add: detail_of_def comp_def)

lemma rule_weight_values:
  "map rule_weight
     [''smoking'', ''poor diet'', ''low exercise'', ''excessive alcohol'', ''poor sleep'',
      ''high stress'', ''obesity'', ''overweight'', ''advanced age'', ''middle age''] =
     [1, 9 / 10, 85 / 100, 8 / 10, 7 / 10, 75 / 100, 85 / 100, 6 / 10, 5 / 10, 3 / 10]"
  by (simp add: rule_weight_def FACTOR_RULES_def)

lemma rule_labels_weights:
  "map (\<lambda>kr. (label (snd kr), weight (snd kr))) FACTOR_RULES =
     [(''smoking'', 1), (''poor diet'', 9 / 10), (''low exercise'', 85 / 100),
      (''excessive alcohol'', 8 / 10), (''poor sleep'', 7 / 10), (''high stress'', 75 / 100),
      (''obesity'', 85 / 100), (''overweight'', 6 / 10), (''advanced age'', 5 / 10),
      (''middle age'', 3 / 10)]"
  by (simp add: FACTOR_RULES_def)

lemma rule_weight_table:
  assumes "kr \<in> set FACTOR_RULES"
  shows "rule_weight (label (snd kr)) = weight (snd kr)"
proof -
  have v: "\<forall>(l, w) \<in> set
     [(''smoking'', 1), (''poor diet'', 9 / 10), (''low exercise'', 85 / 100),
      (''excessive alcohol'', 8 / 10), (''poor sleep'', 7 / 10), (''high stress'', 75 / 100),
      (''obesity'', 85 / 100), (''overweight'', 6 / 10), (''advanced age'', 5 / 10),
      (''middle age'', 3 / 10)]. rule_weight l = w"
    using rule_weight_values by simp
  have g: "rule_weight x = y"
    if "(x, y) \<in> set L" "\<forall>(l, w) \<in> set L. rule_weight l = w" for x y L
    using that by auto
  have "(label (snd kr), weight (snd kr)) \<in>
      set (map (\<lambda>kr. (label (snd kr), weight (snd kr))) FACTOR_RULES)"
    using assms unfolding set_map by (rule imageI)
  then show ?thesis unfolding rule_labels_weights using v by (rule g)
qed

lemma factors_sorted:
  "sorted_wrt (\<lambda>x y. rule_weight x \<ge> rule_weight y) (factors (extractFactors a))"
proof -
  let ?S = "sort_key (\<lambda>kr. - weight (snd kr)) (matched_rules a)"
  have sub: "set ?S \<subseteq> set FACTOR_RULES" using matched_subset [of a] by simp
  have "sorted (map (\<lambda>kr. - weight (snd kr)) ?S)" by (rule sorted_sort_key)
  then have "sorted_wrt (\<lambda>x y. weight (snd x) \<ge> weight (snd y)) ?S"
    by (simp add: sorted_map)
  then have "sorted_wrt
      (\<lambda>x y. rule_weight (label (snd x)) \<ge> rule_weight (label (snd y))) ?S"
  proof (rule sorted_wrt_mono_rel [rotated])
    fix x y
    assume "x \<in> set ?S" "y \<in> set ?S" and le: "weight (snd x) \<ge> weight (snd y)"
    then have "x \<in> set FACTOR_RULES" "y \<in> set FACTOR_RULES" using sub by blast+
    then show "rule_weight (label (snd x)) \<ge> rule_weight (label (snd y))"
      using le by (simp add: rule_weight_table)
  qed
  then show ?thesis by (simp add: factors_table sorted_wrt_map)
qed

lemma factors_stable:
  "filter (\<lambda>l. rule_weight l = w) (factors (extractFactors a)) =
     map (\<lambda>kr. label (snd kr)) (filter (\<lambda>kr. weight (snd kr) = w) (matched_rules a))"
proof -
  let ?S = "sort_key (\<lambda>kr. - weight (snd kr)) (matched_rules a)"
  have sub: "set ?S \<subseteq> set FACTOR_RULES" using matched_subset [of a] by simp
  have "filter (\<lambda>l. rule_weight l = w) (factors (extractFactors a)) =
      map (\<lambda>kr. label (snd kr)) (filter (\<lambda>kr. rule_weight (label (snd kr)) = w) ?S)"
    by (simp add: factors_table filter_map comp_def)
  also have "filter (\<lambda>kr. rule_weight (label (snd kr)) = w) ?S =
      filter (\<lambda>kr. - weight (snd kr) = - w) ?S"
  proof (rule filter_cong [OF refl])
    fix kr assume "kr \<in> set ?S"
    then have "kr \<in> set FACTOR_RULES" using sub by blast
    then show "(rule_weight (label (snd kr)) = w) = (- weight (snd kr) = - w)"
      by (simp add: rule_weight_table)
  qed
  also have "\<dots> = filter (\<lambda>kr. - weight (snd kr) = - w) (matched_rules a)"
    by (rule sort_key_stable)
  finally show ?thesis by simp
qed

text \<open>
  C5. The factors that \<open>extractFactors\<close> returns are the labels of the rules of
  \<open>FACTOR_RULES\<close> whose check holds on the answers, each once, sorted descending by the
  weight that the table gives to the rule; the labels of one weight keep the order of the
  table. The weights are those of the table (1, 0.9, 0.85, 0.8, 0.7, 0.75, 0.85, 0.6, 0.5
  and 0.3): the two labels of weight 0.85 come in the order of the table, low exercise
  before obesity, whenever they are there. The details are the records of the same rules
  in the same order.
\<close>

theorem extractFactors_sorted_stable:
  "factors (extractFactors a) =
     map (\<lambda>kr. label (snd kr)) (sort_key (\<lambda>kr. - weight (snd kr)) (matched_rules a)) \<and>
   factor_details (extractFactors a) =
     map detail_of (sort_key (\<lambda>kr. - weight (snd kr)) (matched_rules a)) \<and>
   sorted_wrt (\<lambda>x y. rule_weight x \<ge> rule_weight y) (factors (extractFactors a)) \<and>
   (\<forall>l. l \<in> set (factors (extractFactors a)) \<longleftrightarrow>
        (\<exists>kr \<in> set FACTOR_RULES. label (snd kr) = l \<and> check (snd kr) a = Inr True)) \<and>
   (\<forall>w. filter (\<lambda>l. rule_weight l = w) (factors (extractFactors a)) =
        map (\<lambda>kr. label (snd kr))
          (filter (\<lambda>kr. weight (snd kr) = w) (matched_rules a))) \<and>
   map rule_weight
     [''smoking'', ''poor diet'', ''low exercise'', ''excessive alcohol'', ''poor sleep'',
      ''high stress'', ''obesity'', ''overweight'', ''advanced age'', ''middle age''] =
     [1, 9 / 10, 85 / 100, 8 / 10, 7 / 10, 75 / 100, 85 / 100, 6 / 10, 5 / 10, 3 / 10] \<and>
   filter (\<lambda>l. l = ''low exercise'' \<or> l = ''obesity'') (factors (extractFactors a)) =
     filter (\<lambda>l. l \<in> set (factors (extractFactors a))) [''low exercise'', ''obesity''] \<and>
   sorted_wrt (\<lambda>x y. detail_weight x \<ge> detail_weight y) (factor_details (extractFactors a)) \<and>
   (\<forall>w. filter (\<lambda>d. detail_weight d = w) (factor_details (extractFactors a)) =
        filter (\<lambda>d. detail_weight d = w) (map detail_of (matched_rules a)))"
  using factors_table [of a] factor_details_table [of a] factors_sorted [of a]
    mem_factors_iff [of _ a] factors_stable [of _ a] rule_weight_values factors_ties [of a]
    factor_details_sorted [of a] factor_details_stable [of _ a]
  by blast

theorem extractFactors_sorted_stable_witness:
  "map (\<lambda>kr. label (snd kr))
     (matched_rules
        (empty_answers\<lparr>exercise := JStr ''rarely'', sleep := Prim (JNum (Num 5)),
                        stress := JStr ''high'', bmi := JNum (Num 31),
                        age := JNum (Num 45)\<rparr>)) =
     [''low exercise'', ''poor sleep'', ''high stress'', ''obesity'', ''middle age''] \<and>
   factors (extractFactors
      (empty_answers\<lparr>exercise := JStr ''rarely'', sleep := Prim (JNum (Num 5)),
                      stress := JStr ''high'', bmi := JNum (Num 31),
                      age := JNum (Num 45)\<rparr>)) =
     [''low exercise'', ''obesity'', ''high stress'', ''poor sleep'', ''middle age''] \<and>
   map rule_weight
     [''low exercise'', ''obesity'', ''high stress'', ''poor sleep'', ''middle age''] =
     [85 / 100, 85 / 100, 75 / 100, 7 / 10, 3 / 10]"
proof -
  let ?a = "empty_answers\<lparr>exercise := JStr ''rarely'', sleep := Prim (JNum (Num 5)),
                      stress := JStr ''high'', bmi := JNum (Num 31),
                      age := JNum (Num 45)\<rparr>"
  have m: "map (\<lambda>kr. label (snd kr)) (matched_rules ?a) =
     [''low exercise'', ''poor sleep'', ''high stress'', ''obesity'', ''middle age'']"
    by code_simp
  have s: "map (\<lambda>kr. label (snd kr))
       (sort_key (\<lambda>kr. - weight (snd kr)) (matched_rules ?a)) =
     [''low exercise'', ''obesity'', ''high stress'', ''poor sleep'', ''middle age'']"
    by code_simp
  have w: "map rule_weight
     [''low exercise'', ''obesity'', ''high stress'', ''poor sleep'', ''middle age''] =
     [85 / 100, 85 / 100, 75 / 100, 7 / 10, 3 / 10]"
    by (simp add: rule_weight_def FACTOR_RULES_def)
  from extractFactors_sorted_stable [of ?a]
  have "factors (extractFactors ?a) =
     map (\<lambda>kr. label (snd kr)) (sort_key (\<lambda>kr. - weight (snd kr)) (matched_rules ?a))"
    by blast
  with m s w show ?thesis by simp
qed
section \<open>Properties of the recommendation engine\<close>

text \<open>
  On the factor lists none of whose labels names a property of \<open>Object.prototype\<close>,
  the detailed list is the sorted list of the factors' entries, followed for the levels
  high and very high by the general entries whose primary text is new, cut to five; it is
  sorted by priority.
\<close>

lemma foldl_add_recommendation_known:
  "\<forall>f\<in>set fs. f \<notin> set Object_prototype_keys \<Longrightarrow>
   foldl add_recommendation (recs, dets) fs =
     (recs @ map primary_of (specific_entries fs), dets @ specific_entries fs)"
proof (induction fs arbitrary: recs dets)
  case Nil
  then show ?case by (simp add: specific_entries_def)
next
  case (Cons f fs)
  then have f: "f \<notin> set Object_prototype_keys" by simp
  show ?case
  proof (cases "map_of RECOMMENDATIONS f")
    case None
    with f Cons show ?thesis by (simp add: get_property_def specific_entries_def)
  next
    case (Some r)
    with f Cons show ?thesis by (simp add: get_property_def specific_entries_def)
  qed
qed

lemma specific_entries_cases:
  "d \<in> set (specific_entries fs) \<Longrightarrow>
     \<exists>f r. d = Specific r f \<and> f \<in> set fs \<and> map_of RECOMMENDATIONS f = Some r"
  by (auto simp: specific_entries_def split: option.splits)

lemma table_priority_le:
  "map_of RECOMMENDATIONS f = Some r \<Longrightarrow> priority r \<le> 6"
  by (auto simp: RECOMMENDATIONS_def split: if_splits)

lemma insert_by_priority:
  assumes "priority_of x \<noteq> None" and "\<forall>y\<in>set ys. priority_of y \<noteq> None"
  shows "insert_by by_priority x ys = insort_key the_priority x ys"
  using assms
proof (induction ys)
  case Nil
  show ?case by simp
next
  case (Cons y ys)
  then obtain p q where "priority_of x = Some p" "priority_of y = Some q" by auto
  with Cons show ?case
    by (auto simp: by_priority_def num_gt_def the_priority_def)
qed

lemma set_insert_by: "set (insert_by cmp x ys) = insert x (set ys)"
  by (induction ys) auto

lemma Array_sort_priority:
  "\<forall>y\<in>set xs. priority_of y \<noteq> None \<Longrightarrow>
     Array_sort by_priority xs = sort_key the_priority xs"
proof (induction xs)
  case Nil
  show ?case by (simp add: Array_sort_def)
next
  case (Cons x xs)
  then have "Array_sort by_priority xs = sort_key the_priority xs" by simp
  moreover have "\<forall>y\<in>set (sort_key the_priority xs). priority_of y \<noteq> None"
    using Cons.prems by simp
  ultimately show ?case
    using Cons.prems by (simp add: Array_sort_def sort_key_def insert_by_priority)
qed

lemma foldl_add_general:
  "foldl add_general (recs, dets) GENERAL_RECOMMENDATIONS =
     (recs @ map primary_of
        (map General (filter (\<lambda>g. Some (primary g) \<notin> set recs) GENERAL_RECOMMENDATIONS)),
      dets @ map General (filter (\<lambda>g. Some (primary g) \<notin> set recs) GENERAL_RECOMMENDATIONS))"
  by (simp add: GENERAL_RECOMMENDATIONS_def)

lemma generateRecommendations_known:
  assumes "\<forall>f\<in>set fs. f \<notin> set Object_prototype_keys"
  shows "detailed_recommendations (generateRecommendations fs lvl) =
     take 5 (sort_key the_priority (specific_entries fs) @
       (if lvl = ''high'' \<or> lvl = ''very high''
        then map General (filter (\<lambda>g. Some (primary g) \<notin> set (map primary_of (specific_entries fs)))
               GENERAL_RECOMMENDATIONS)
        else []))"
proof -
  have p: "\<forall>y\<in>set (specific_entries fs). priority_of y \<noteq> None"
    by (auto dest: specific_entries_cases)
  show ?thesis
    using foldl_add_recommendation_known [OF assms, of "[]" "[]"]
    by (simp add: generateRecommendations_def Let_def Array_sort_priority [OF p]
        foldl_add_general del: foldl.simps)
qed

lemma specific_priority:
  "d \<in> set (specific_entries fs) \<Longrightarrow>
     the_priority d \<le> 6 \<and> priority_of d = Some (the_priority d)"
proof -
  assume "d \<in> set (specific_entries fs)"
  then obtain f r where d: "d = Specific r f" and r: "map_of RECOMMENDATIONS f = Some r"
    using specific_entries_cases by blast
  from r have "priority r \<le> 6" by (rule table_priority_le)
  with d show ?thesis by (simp add: the_priority_def)
qed

lemma general_priority:
  "g \<in> set GENERAL_RECOMMENDATIONS \<Longrightarrow>
     7 \<le> the_priority (General g) \<and> priority_of (General g) = Some (the_priority (General g))"
  by (auto simp: GENERAL_RECOMMENDATIONS_def the_priority_def)

lemma general_sorted:
  "sorted (map the_priority (map General (filter P GENERAL_RECOMMENDATIONS)))"
  by (simp add: GENERAL_RECOMMENDATIONS_def the_priority_def)

lemma generateRecommendations_sorted_known:
  assumes "\<forall>f\<in>set fs. f \<notin> set Object_prototype_keys"
  shows "sorted (map the_priority (detailed_recommendations (generateRecommendations fs lvl)))"
    and "\<forall>d\<in>set (detailed_recommendations (generateRecommendations fs lvl)).
           priority_of d = Some (the_priority d)"
proof -
  define S where "S = sort_key the_priority (specific_entries fs)"
  define G where "G = (if lvl = ''high'' \<or> lvl = ''very high''
        then map General
               (filter (\<lambda>g. Some (primary g) \<notin> set (map primary_of (specific_entries fs)))
                  GENERAL_RECOMMENDATIONS)
        else [])"
  have D: "detailed_recommendations (generateRecommendations fs lvl) = take 5 (S @ G)"
    unfolding S_def G_def by (rule generateRecommendations_known [OF assms])
  have s: "\<And>d. d \<in> set S \<Longrightarrow> the_priority d \<le> 6 \<and> priority_of d = Some (the_priority d)"
    unfolding S_def using specific_priority [of _ fs] by simp
  have g: "\<And>d. d \<in> set G \<Longrightarrow> 7 \<le> the_priority d \<and> priority_of d = Some (the_priority d)"
    unfolding G_def using general_priority by (auto split: if_splits)
  have gs: "sorted (map the_priority G)"
    unfolding G_def using general_sorted by simp
  have ss: "sorted (map the_priority S)"
    unfolding S_def by (rule sorted_sort_key)
  have "\<forall>x\<in>set (map the_priority S). \<forall>y\<in>set (map the_priority G). x \<le> y"
  proof (intro ballI)
    fix x y assume "x \<in> set (map the_priority S)" "y \<in> set (map the_priority G)"
    then obtain d e where "d \<in> set S" "x = the_priority d" "e \<in> set G" "y = the_priority e"
      by auto
    with s [of d] g [of e] show "x \<le> y" by simp
  qed
  with ss gs have "sorted (map the_priority (S @ G))"
    by (simp add: sorted_append)
  then have "sorted (take 5 (map the_priority (S @ G)))" by (rule sorted_wrt_take)
  then show "sorted (map the_priority (detailed_recommendations (generateRecommendations fs lvl)))"
    unfolding D by (simp only: take_map)
  show "\<forall>d\<in>set (detailed_recommendations (generateRecommendations fs lvl)).
           priority_of d = Some (the_priority d)"
  proof
    fix d assume "d \<in> set (detailed_recommendations (generateRecommendations fs lvl))"
    then have "d \<in> set (S @ G)" unfolding D by (rule in_set_takeD)
    then show "priority_of d = Some (the_priority d)" using s [of d] g [of d] by auto
  qed
qed

text \<open>
  The entries are at most five, the flat list holds their primary texts, and a general
  entry is there only for the levels high and very high and only when no factor of the
  list has a recommendation with the same primary text: on every factor list.
\<close>

lemma generateRecommendations_general:
  "length (detailed_recommendations (generateRecommendations fs lvl)) \<le> 5"
  "recommendations (generateRecommendations fs lvl) =
     map primary_of (detailed_recommendations (generateRecommendations fs lvl))"
  by (simp_all add: generateRecommendations_def Let_def case_prod_beta)

lemma foldl_add_recommendation_shape:
  "foldl add_recommendation (recs, dets) fs = (recs', dets') \<Longrightarrow>
     (\<forall>d\<in>set dets. \<forall>g. d \<noteq> General g) \<Longrightarrow>
     (\<forall>d\<in>set dets'. \<forall>g. d \<noteq> General g) \<and> set recs \<subseteq> set recs' \<and>
     (\<forall>f\<in>set fs. \<forall>r. map_of RECOMMENDATIONS f = Some r \<longrightarrow> Some (primary r) \<in> set recs')"
proof (induction fs arbitrary: recs dets)
  case Nil
  then show ?case by auto
next
  case (Cons f fs)
  obtain recs1 dets1 where step: "add_recommendation (recs, dets) f = (recs1, dets1)"
    by (cases "add_recommendation (recs, dets) f")
  have d1: "\<forall>d\<in>set dets1. \<forall>g. d \<noteq> General g"
    using step Cons.prems(2) by (auto simp: split: property.splits)
  have r1: "set recs \<subseteq> set recs1"
    "\<And>r. map_of RECOMMENDATIONS f = Some r \<Longrightarrow> Some (primary r) \<in> set recs1"
    using step by (auto simp: get_property_def split: property.splits)
  from Cons.prems(1) step have "foldl add_recommendation (recs1, dets1) fs = (recs', dets')"
    by simp
  from Cons.IH [OF this d1]
  have ih: "\<forall>d\<in>set dets'. \<forall>g. d \<noteq> General g" "set recs1 \<subseteq> set recs'"
    "\<forall>f\<in>set fs. \<forall>r. map_of RECOMMENDATIONS f = Some r \<longrightarrow> Some (primary r) \<in> set recs'"
    by auto
  show ?case
  proof (intro conjI ballI allI impI)
    show "\<And>d g. d \<in> set dets' \<Longrightarrow> d \<noteq> General g" using ih(1) by blast
    show "set recs \<subseteq> set recs'" using r1(1) ih(2) by blast
    fix f' r assume "f' \<in> set (f # fs)" "map_of RECOMMENDATIONS f' = Some r"
    then show "Some (primary r) \<in> set recs'"
      using r1(2) ih(2) ih(3) by auto
  qed
qed

lemma set_Array_sort: "set (Array_sort cmp xs) = set xs"
  by (induction xs) (auto simp: Array_sort_def set_insert_by)

lemma generateRecommendations_generals:
  assumes "General g \<in> set (detailed_recommendations (generateRecommendations fs lvl))"
  shows "(lvl = ''high'' \<or> lvl = ''very high'') \<and> g \<in> set GENERAL_RECOMMENDATIONS \<and>
    (\<forall>f\<in>set fs. \<forall>r. map_of RECOMMENDATIONS f = Some r \<longrightarrow> primary r \<noteq> primary g)"
proof -
  obtain recs dets where l: "foldl add_recommendation ([], []) fs = (recs, dets)"
    by (cases "foldl add_recommendation ([], []) fs")
  from foldl_add_recommendation_shape [OF l]
  have nd: "\<forall>d\<in>set dets. \<forall>g. d \<noteq> General g"
    and rs: "\<forall>f\<in>set fs. \<forall>r. map_of RECOMMENDATIONS f = Some r \<longrightarrow> Some (primary r) \<in> set recs"
    by auto
  have ns: "General g \<notin> set (Array_sort by_priority dets)"
    using nd by (auto simp: set_Array_sort)
  define G where "G = map General
    (filter (\<lambda>g. Some (primary g) \<notin> set recs) GENERAL_RECOMMENDATIONS)"
  have D: "detailed_recommendations (generateRecommendations fs lvl) =
      take 5 (Array_sort by_priority dets @
        (if lvl = ''high'' \<or> lvl = ''very high'' then G else []))"
    unfolding G_def
    by (simp add: generateRecommendations_def Let_def l foldl_add_general del: foldl.simps)
  from assms have "General g \<in> set (Array_sort by_priority dets @
        (if lvl = ''high'' \<or> lvl = ''very high'' then G else []))"
    unfolding D by (rule in_set_takeD)
  with ns have lv: "lvl = ''high'' \<or> lvl = ''very high''" and "General g \<in> set G"
    by (auto split: if_splits)
  then have "g \<in> set GENERAL_RECOMMENDATIONS" "Some (primary g) \<notin> set recs"
    unfolding G_def by auto
  with rs lv show ?thesis by metis
qed

text \<open>
  C4. The detailed list is sorted ascending by priority. The code misses this at a label
  that names a property of \<open>Object.prototype\<close>, by the lookup that C1 fails on:
  \<open>RECOMMENDATIONS[factor]\<close> is the inherited function, the entry made from it has neither
  \<open>priority\<close> nor \<open>primary\<close>, and the comparator returns NaN on it. The entry of priority 5
  then stays before the entry of priority 1, and the flat list holds \<open>undefined\<close>.
\<close>

theorem generateRecommendations_inherited_label:
  "map priority_of (detailed_recommendations
      (generateRecommendations [''overweight'', ''constructor'', ''smoking''] ''low''))
     = [Some 5, None, Some 1] \<and>
   map priority_of (detailed_recommendations (generateRecommendations [''constructor''] ''high''))
     = [None, Some 7, Some 8] \<and>
   recommendations (generateRecommendations [''constructor''] ''high'')
     = [None, Some ''Stay hydrated'', Some ''Regular health checkups'']"
  by (simp add: generateRecommendations_def get_property_def RECOMMENDATIONS_def
      GENERAL_RECOMMENDATIONS_def Object_prototype_keys_def Array_sort_def by_priority_def
      num_gt_def Let_def)

section \<open>Properties of the guardrails\<close>

lemma floor_rat_numeral:
  "\<lfloor>(numeral a :: rat) / numeral b\<rfloor> = numeral a div numeral b"
  using floor_divide_of_int_eq [of "numeral a" "numeral b", where ?'a = rat] by simp

lemma smoker_corrected:
  "smoker (correctedAnswers (validateAnswerRanges B (a\<lparr>smoker := JStr s\<rparr>))) =
     (if toLowerCase s \<in> set [''yes'', ''true'', ''1'', ''y''] then JBool True
      else if toLowerCase s \<in> set [''no'', ''false'', ''0'', ''n''] then JBool False
      else JStr s)"
  by (simp add: validateAnswerRanges_def Let_def case_prod_beta if_distrib [of fst]
      split del: if_split cong del: if_weak_cong)

text \<open>
  C8, as stated: the guardrail and the Normalizer map the same strings to true and to
  false. It fails at \<open>yeah\<close>, which the Normalizer maps to true and the guardrail leaves
  as it is.
\<close>

theorem validateAnswerRanges_smoker_counterexample:
  "normalizeBoolean (Prim (JStr ''yeah'')) = JBool True \<and>
   smoker (correctedAnswers (validateAnswerRanges test_builtins
      (empty_answers\<lparr>smoker := JStr ''yeah''\<rparr>))) = JStr ''yeah''"
  by (simp add: validateAnswerRanges_def empty_answers_def toLowerCase_def lower_char_def
      trim_def is_space_def Let_def)

text \<open>
  C8, amended. The guardrail has synonym sets of its own: it maps a string to true exactly
  when the string, in lower case, is one of yes, true, 1, y, and to false exactly when it
  is one of no, false, 0, n; every other string it leaves as it is. These are subsets of
  the Normalizer's sets: whenever the guardrail maps a string to a boolean, the Normalizer
  maps it to the same boolean. The Normalizer's further synonyms yeah, yep, nope and
  never, which the Normalizer maps to a boolean, and the strings that white space
  surrounds are among those that the guardrail leaves as they are.
\<close>

theorem validateAnswerRanges_smoker:
  "(smoker (correctedAnswers (validateAnswerRanges B (a\<lparr>smoker := JStr s\<rparr>))) = JBool True
      \<longleftrightarrow> toLowerCase s \<in> set [''yes'', ''true'', ''1'', ''y'']) \<and>
   (smoker (correctedAnswers (validateAnswerRanges B (a\<lparr>smoker := JStr s\<rparr>))) = JBool False
      \<longleftrightarrow> toLowerCase s \<in> set [''no'', ''false'', ''0'', ''n'']) \<and>
   (smoker (correctedAnswers (validateAnswerRanges B (a\<lparr>smoker := JStr s\<rparr>))) = JBool True
      \<longrightarrow> normalizeBoolean (Prim (JStr s)) = JBool True) \<and>
   (smoker (correctedAnswers (validateAnswerRanges B (a\<lparr>smoker := JStr s\<rparr>))) = JBool False
      \<longrightarrow> normalizeBoolean (Prim (JStr s)) = JBool False) \<and>
   smoker (correctedAnswers (validateAnswerRanges B (a\<lparr>smoker := JStr s\<rparr>))) =
     (if toLowerCase s \<in> set [''yes'', ''true'', ''1'', ''y''] then JBool True
      else if toLowerCase s \<in> set [''no'', ''false'', ''0'', ''n''] then JBool False
      else JStr s) \<and>
   (toLowerCase s \<notin> set [''yes'', ''true'', ''1'', ''y''] \<and>
    toLowerCase s \<notin> set [''no'', ''false'', ''0'', ''n'']
      \<longrightarrow> smoker (correctedAnswers (validateAnswerRanges B (a\<lparr>smoker := JStr s\<rparr>))) = JStr s) \<and>
   (toLowerCase s \<in> set [''yeah'', ''yep'']
      \<longrightarrow> smoker (correctedAnswers (validateAnswerRanges B (a\<lparr>smoker := JStr s\<rparr>))) = JStr s
          \<and> normalizeBoolean (Prim (JStr s)) = JBool True) \<and>
   (toLowerCase s \<in> set [''nope'', ''never'']
      \<longrightarrow> smoker (correctedAnswers (validateAnswerRanges B (a\<lparr>smoker := JStr s\<rparr>))) = JStr s
          \<and> normalizeBoolean (Prim (JStr s)) = JBool False) \<and>
   (trim (toLowerCase s) \<noteq> toLowerCase s
      \<longrightarrow> smoker (correctedAnswers (validateAnswerRanges B (a\<lparr>smoker := JStr s\<rparr>))) = JStr s)"
  unfolding smoker_corrected
  by (auto simp: trim_def is_space_def Let_def)

theorem validateAnswerRanges_smoker_witness:
  "smoker (correctedAnswers (validateAnswerRanges test_builtins
      (empty_answers\<lparr>smoker := JStr ''YES''\<rparr>))) = JBool True \<and>
   toLowerCase ''YES'' \<in> set [''yes'', ''true'', ''1'', ''y''] \<and>
   normalizeBoolean (Prim (JStr ''YES'')) = JBool True \<and>
   smoker (correctedAnswers (validateAnswerRanges test_builtins
      (empty_answers\<lparr>smoker := JStr ''No''\<rparr>))) = JBool False \<and>
   normalizeBoolean (Prim (JStr ''No'')) = JBool False \<and>
   smoker (correctedAnswers (validateAnswerRanges test_builtins
      (empty_answers\<lparr>smoker := JStr ''maybe''\<rparr>))) = JStr ''maybe'' \<and>
   toLowerCase ''Yep'' \<in> set [''yeah'', ''yep''] \<and>
   smoker (correctedAnswers (validateAnswerRanges test_builtins
      (empty_answers\<lparr>smoker := JStr ''Yep''\<rparr>))) = JStr ''Yep'' \<and>
   normalizeBoolean (Prim (JStr ''Yep'')) = JBool True \<and>
   toLowerCase ''Nope'' \<in> set [''nope'', ''never''] \<and>
   smoker (correctedAnswers (validateAnswerRanges test_builtins
      (empty_answers\<lparr>smoker := JStr ''Nope''\<rparr>))) = JStr ''Nope'' \<and>
   normalizeBoolean (Prim (JStr ''Nope'')) = JBool False \<and>
   trim (toLowerCase '' yes '') \<noteq> toLowerCase '' yes '' \<and>
   smoker (correctedAnswers (validateAnswerRanges test_builtins
      (empty_answers\<lparr>smoker := JStr '' yes ''\<rparr>))) = JStr '' yes ''"
proof -
  have l: "toLowerCase ''YES'' = ''yes''" "toLowerCase ''No'' = ''no''"
    "toLowerCase ''maybe'' = ''maybe''" "toLowerCase ''Yep'' = ''yep''"
    "toLowerCase ''Nope'' = ''nope''" "toLowerCase '' yes '' = '' yes ''"
    by (simp_all add: toLowerCase_def lower_char_def)
  have t: "trim '' yes '' = ''yes''"
    by (simp add: trim_def is_space_def)
  from validateAnswerRanges_smoker [where B = test_builtins and a = empty_answers and s = "''YES''"]
    validateAnswerRanges_smoker [where B = test_builtins and a = empty_answers and s = "''No''"]
    validateAnswerRanges_smoker [where B = test_builtins and a = empty_answers and s = "''maybe''"]
    validateAnswerRanges_smoker [where B = test_builtins and a = empty_answers and s = "''Yep''"]
    validateAnswerRanges_smoker [where B = test_builtins and a = empty_answers and s = "''Nope''"]
    validateAnswerRanges_smoker [where B = test_builtins and a = empty_answers and s = "'' yes ''"]
  show ?thesis unfolding l t by simp
qed
section \<open>Properties of the survey parser\<close>

text \<open>
  C7. The parsed age is the integer parse of the raw value whenever that is an integer,
  0 included. The code misses the case 0: \<open>parseInt(rawAnswers.age, 10) || null\<close> turns
  the parsed 0, which is falsy, into null, as it does with NaN.
\<close>

theorem parseJsonInput_age_zero:
  "parseInt_json B (Prim (JStr ''0'')) = Inr (Num 0) \<and>
   parseJsonInput B (JObj [(''age'', Prim (JStr ''0''))]) = Inr (empty_answers\<lparr>age := JNull\<rparr>)"
  by code_simp

text \<open>
  Apart from 0, the parsed age is what the claim says: the parsed integer, and null when
  the parse gives NaN.
\<close>

lemma parseJsonInput_age:
  assumes "parseJsonInput B (JObj kvs) = Inr a" and "map_of kvs ''age'' = Some v"
    and "v \<noteq> Prim JUndefined"
  shows "\<exists>n. parseInt_json B v = Inr n \<and>
    age a = (if n = NaN \<or> n = Num 0 then JNull else JNum n)"
proof (cases "parseInt_json B v")
  case (Inl e)
  with assms show ?thesis
    by (simp add: parseJsonInput_def bind_def when_defined_def)
next
  case (Inr n)
  with assms have "age a = js_or (JNum n) JNull"
    by (auto simp: parseJsonInput_def bind_def when_defined_def split: sum.splits)
  with Inr show ?thesis by (simp add: js_or_def)
qed

lemma normalizeExercise_string:
  "\<exists>v. normalizeExercise B (Prim (JStr s)) = Inr v"
  by (simp add: normalizeExercise_def bind_def Let_def)

lemma normalizeDiet_string:
  "\<exists>v. normalizeDiet B (Prim (JStr s)) = Inr v"
  by (simp add: normalizeDiet_def bind_def Let_def)

lemma bind_returns:
  assumes "\<exists>x. r = Inr x" and "\<And>x. \<exists>y. f x = Inr y"
  shows "\<exists>y. bind r f = Inr y"
  using assms by (auto simp: bind_def)

lemma parse_line_returns: "\<exists>a'. parse_line B a l = Inr a'"
  unfolding parse_line_def Let_def
  by (intro bind_returns allI)
     (auto intro!: bind_returns normalizeExercise_string normalizeDiet_string)

lemma parse_lines_returns: "\<exists>a'. parse_lines B a ls = Inr a'"
proof (induction ls arbitrary: a)
  case Nil
  show ?case by simp
next
  case (Cons l ls)
  obtain a1 where "parse_line B a l = Inr a1" using parse_line_returns by blast
  with Cons [of a1] show ?case by (simp add: bind_def)
qed

lemma parseOcrText_throws:
  "isl (parseOcrText B v) = (\<not> is_string v)"
proof (cases "is_string v")
  case True
  then obtain t where "v = Prim (JStr t)" by (cases v rule: is_string.cases) auto
  then show ?thesis
    using parse_lines_returns
      [of B empty_answers "filter (\<lambda>l. l \<noteq> []) (map trim (split_char (CHR 0x0A) t))"]
    by (auto simp: parseOcrText_def)
next
  case False
  then show ?thesis
    by (cases v rule: is_string.cases) (auto simp: parseOcrText_def split: jsval.splits)
qed

lemma parseOcrText_TypeError: "parseOcrText B v = Inl e \<Longrightarrow> e = TypeError"
proof (cases "is_string v")
  case True
  assume "parseOcrText B v = Inl e"
  then have "isl (parseOcrText B v)" by simp
  with True show ?thesis by (simp add: parseOcrText_throws)
next
  case False
  assume "parseOcrText B v = Inl e"
  with False show ?thesis
    by (cases v rule: is_string.cases) (auto simp: parseOcrText_def split: jsval.splits)
qed

lemma parseJsonInput_null:
  "input = Prim JNull \<or> input = Prim JUndefined \<Longrightarrow> parseJsonInput B input = Inl TypeError"
  by (auto simp: parseJsonInput_def bind_def)

lemma bind_TypeError:
  assumes "bind r f = Inl e" and "\<And>e'. r = Inl e' \<Longrightarrow> e' = TypeError"
    and "\<And>x e'. f x = Inl e' \<Longrightarrow> e' = TypeError"
  shows "e = TypeError"
  using assms by (cases r) (auto simp: bind_def)

lemma sequence_TypeError:
  assumes "sequence rs = Inl e" and "\<And>r e'. r \<in> set rs \<Longrightarrow> r = Inl e' \<Longrightarrow> e' = TypeError"
  shows "e = TypeError"
  using assms
proof (induction rs)
  case Nil
  then show ?case by simp
next
  case (Cons r rs)
  show ?case
  proof (cases r)
    case (Inl e')
    with Cons.prems show ?thesis by (auto simp: bind_def)
  next
    case (Inr x)
    with Cons show ?thesis by (cases "sequence rs") (auto simp: bind_def)
  qed
qed

lemma ToString_json_TypeError: "ToString_json B v = Inl e \<Longrightarrow> e = TypeError"
proof (induction B v arbitrary: e rule: ToString_json.induct)
  case (1 B p)
  then show ?case by simp
next
  case (2 B xs)
  let ?rs = "map (\<lambda>x. if x = Prim JUndefined \<or> x = Prim JNull then Inr []
                               else ToString_json B x) xs"
  from "2.prems" have "sequence ?rs = Inl e"
    by (cases "sequence ?rs") (auto simp: bind_def)
  then show ?case
  proof (rule sequence_TypeError)
    fix r e' assume "r \<in> set ?rs" and "r = Inl e'"
    then obtain x where "x \<in> set xs" and "\<not> (x = Prim JUndefined \<or> x = Prim JNull)"
      and "ToString_json B x = Inl e'"
      by (auto split: if_splits)
    then show "e' = TypeError" using "2.IH" by blast
  qed
next
  case (3 B kvs)
  then show ?case by (simp split: if_splits)
qed

lemma bind_Inl_cases:
  "bind r f = Inl e \<Longrightarrow> r = Inl e \<or> (\<exists>x. r = Inr x \<and> f x = Inl e)"
  by (cases r) (auto simp: bind_def)

lemma conversions_TypeError:
  "parseInt_json B v = Inl e \<Longrightarrow> e = TypeError"
  "parseFloat_json B v = Inl e \<Longrightarrow> e = TypeError"
  "normalizeExercise B v = Inl e \<Longrightarrow> e = TypeError"
  "normalizeDiet B v = Inl e \<Longrightarrow> e = TypeError"
  "normalizeAlcohol B v = Inl e \<Longrightarrow> e = TypeError"
  by (auto simp: parseInt_json_def parseFloat_json_def normalizeExercise_def normalizeDiet_def
      normalizeAlcohol_def Let_def dest!: bind_Inl_cases dest: ToString_json_TypeError
      split: if_splits)

lemma when_defined_TypeError:
  assumes "when_defined raw absent f = Inl e" and "\<And>v. f v = Inl e \<Longrightarrow> e = TypeError"
  shows "e = TypeError"
  using assms by (auto simp: when_defined_def split: if_splits)

lemma parseJsonInput_TypeError:
  assumes "parseJsonInput B input = Inl e" and "\<not> is_string input"
  shows "e = TypeError"
proof -
  have first: "(case input of
             Prim (JStr s) \<Rightarrow>
               (case JSON_parse B s of None \<Rightarrow> Inl SyntaxError | Some v \<Rightarrow> Inr v)
           | v \<Rightarrow> Inr v) = Inr input"
    using assms(2) by (cases input rule: is_string.cases) (auto split: jsval.splits)
  show ?thesis
    using assms(1) unfolding parseJsonInput_def first
    by (auto simp: bind_def [of "Inr input"] split: if_splits
        dest!: bind_Inl_cases
        elim!: when_defined_TypeError
        dest: conversions_TypeError ToString_json_TypeError)
qed

lemma parse_attempt_TypeError:
  assumes "parse_attempt B input isOcr = Inl e"
  shows "e = TypeError"
proof (cases isOcr)
  case True
  with assms show ?thesis by (simp add: parse_attempt_def parseOcrText_TypeError)
next
  case False
  show ?thesis
  proof (cases "is_string input")
    case True
    with assms False show ?thesis
      by (auto simp: parse_attempt_def split: sum.splits dest: parseOcrText_TypeError)
  next
    case nostr: False
    with assms False show ?thesis
      by (auto simp: parse_attempt_def dest: parseJsonInput_TypeError)
  qed
qed

lemma parse_attempt_throws:
  "isOcr \<Longrightarrow> isl (parse_attempt B input isOcr) = (\<not> is_string input)"
  "\<not> isOcr \<Longrightarrow> is_string input \<Longrightarrow> \<not> isl (parse_attempt B input isOcr)"
  "\<not> isOcr \<Longrightarrow> input = Prim JNull \<or> input = Prim JUndefined \<Longrightarrow>
     isl (parse_attempt B input isOcr)"
proof -
  show "isOcr \<Longrightarrow> isl (parse_attempt B input isOcr) = (\<not> is_string input)"
    by (simp add: parse_attempt_def parseOcrText_throws)
  show "\<not> isOcr \<Longrightarrow> is_string input \<Longrightarrow> \<not> isl (parse_attempt B input isOcr)"
    using parseOcrText_throws [of B input]
    by (auto simp: parse_attempt_def split: sum.splits)
  show "\<not> isOcr \<Longrightarrow> input = Prim JNull \<or> input = Prim JUndefined \<Longrightarrow>
     isl (parse_attempt B input isOcr)"
    by (auto simp: parse_attempt_def parseJsonInput_null)
qed

text \<open>
  C6. \<open>parseSurvey\<close> never throws to its caller: it is a total function into the parse
  results, since every call that can throw stands in its \<open>try\<close> block. When that block
  throws, the result is the empty answers, the four core fields, confidence 0 and an error
  message; otherwise the result carries no error. With the OCR flag the block throws
  exactly on what is no string; without it, it accepts every string (the inner \<open>try\<close>
  falls back to the line scan, which accepts every string) and throws on null and
  undefined.
\<close>

theorem parseSurvey_never_throws:
  "(case parse_attempt B input isOcr of
      Inl e \<Rightarrow>
        parseSurvey B input isOcr =
          \<lparr>answers = empty_answers,
           missing_fields = [''age'', ''smoker'', ''exercise'', ''diet''],
           confidence = 0,
           error = Some (''Failed to parse input: '' @ error_message B TypeError)\<rparr>
    | Inr a \<Rightarrow>
        parseSurvey B input isOcr =
          \<lparr>answers = a, missing_fields = getMissingFields a,
           confidence = calculateConfidence a isOcr, error = None\<rparr>) \<and>
   (isOcr \<longrightarrow> isl (parse_attempt B input isOcr) = (\<not> is_string input)) \<and>
   (\<not> isOcr \<and> is_string input \<longrightarrow> \<not> isl (parse_attempt B input isOcr)) \<and>
   (\<not> isOcr \<and> (input = Prim JNull \<or> input = Prim JUndefined) \<longrightarrow>
      isl (parse_attempt B input isOcr))"
proof (intro conjI)
  show "case parse_attempt B input isOcr of
      Inl e \<Rightarrow>
        parseSurvey B input isOcr =
          \<lparr>answers = empty_answers,
           missing_fields = [''age'', ''smoker'', ''exercise'', ''diet''],
           confidence = 0,
           error = Some (''Failed to parse input: '' @ error_message B TypeError)\<rparr>
    | Inr a \<Rightarrow>
        parseSurvey B input isOcr =
          \<lparr>answers = a, missing_fields = getMissingFields a,
           confidence = calculateConfidence a isOcr, error = None\<rparr>"
  proof (cases "parse_attempt B input isOcr")
    case (Inl e)
    then have "e = TypeError" by (rule parse_attempt_TypeError)
    with Inl show ?thesis by (simp add: parseSurvey_def CORE_FIELDS_def)
  next
    case (Inr a)
    then show ?thesis by (simp add: parseSurvey_def)
  qed
qed (use parse_attempt_throws [where B = B and input = input and isOcr = isOcr] in blast)+

theorem parseSurvey_never_throws_witness:
  "isl (parse_attempt test_builtins (JObj [(''age'', Prim (JNum (Num 42)))]) True) \<and>
   parseSurvey test_builtins (JObj [(''age'', Prim (JNum (Num 42)))]) True =
     \<lparr>answers = empty_answers,
      missing_fields = [''age'', ''smoker'', ''exercise'', ''diet''],
      confidence = 0, error = Some ''Failed to parse input: ?''\<rparr> \<and>
   \<not> isl (parse_attempt test_builtins (Prim (JStr ''Age: 42'')) True) \<and>
   error (parseSurvey test_builtins (Prim (JStr ''Age: 42'')) True) = None \<and>
   \<not> isl (parse_attempt test_builtins (Prim (JStr ''Age: 42'')) False) \<and>
   isl (parse_attempt test_builtins (Prim JNull) False)"
proof -
  have a: "parse_attempt test_builtins (JObj [(''age'', Prim (JNum (Num 42)))]) True
      = Inl TypeError"
    by code_simp
  have e: "error_message test_builtins TypeError = ''?''"
    by (simp add: test_builtins_def)
  obtain r where b: "parse_attempt test_builtins (Prim (JStr ''Age: 42'')) True = Inr r"
    using parseSurvey_never_throws
      [where B = test_builtins and input = "Prim (JStr ''Age: 42'')" and isOcr = True]
    by (cases "parse_attempt test_builtins (Prim (JStr ''Age: 42'')) True") auto
  show ?thesis
    using parseSurvey_never_throws
        [where B = test_builtins and input = "JObj [(''age'', Prim (JNum (Num 42)))]"
           and isOcr = True]
      parseSurvey_never_throws
        [where B = test_builtins and input = "Prim (JStr ''Age: 42'')" and isOcr = True]
      parseSurvey_never_throws
        [where B = test_builtins and input = "Prim (JStr ''Age: 42'')" and isOcr = False]
      parseSurvey_never_throws
        [where B = test_builtins and input = "Prim JNull" and isOcr = False]
    by (simp add: a b e)
qed

lemma toFixed2_lower:
  assumes "of_int k / 100 \<le> q"
  shows "of_int k / 100 \<le> toFixed2 q"
proof -
  have "of_int k \<le> q * 100 + 1 / 2" using assms by simp
  then have "k \<le> \<lfloor>q * 100 + 1 / 2\<rfloor>" by (simp add: le_floor_iff)
  then have "(of_int k :: rat) \<le> of_int \<lfloor>q * 100 + 1 / 2\<rfloor>" by simp
  then show ?thesis by (simp add: toFixed2_def divide_right_mono)
qed

lemma calculateConfidence_lower: "54 / 100 \<le> calculateConfidence a isOcr"
proof -
  define m where "m = length CORE_FIELDS - length (filter (\<lambda>f. f \<in> set (map fst
      (filter (\<lambda>(k, v). v \<noteq> Prim JNull \<and> v \<noteq> Prim JUndefined) (field_values a))))
      CORE_FIELDS)"
  define n where "n = length (filter (\<lambda>(k, v). v = Prim JNull) (field_values a))"
  define c where
    "c = (if isOcr then 1 - 1 / 10 else 1) - of_nat m * (5 / 100) - of_nat n * (2 / 100 :: rat)"
  have m: "m \<le> 4" by (simp add: m_def CORE_FIELDS_def)
  have "n \<le> length (field_values a)" unfolding n_def by (rule length_filter_le)
  then have n: "n \<le> 8" by (simp add: field_values_def)
  have "(of_nat m :: rat) \<le> 4" "(of_nat n :: rat) \<le> 8" using m n by simp_all
  then have "of_int 54 / 100 \<le> c" by (simp add: c_def)
  then have "of_int 54 / 100 \<le> toFixed2 c" by (rule toFixed2_lower)
  then have "54 / 100 \<le> max 0 (min 1 (toFixed2 c))" by simp
  moreover have "calculateConfidence a isOcr = max 0 (min 1 (toFixed2 c))"
    by (simp add: calculateConfidence_def Let_def c_def m_def n_def)
  ultimately show ?thesis by simp
qed

lemma getMissingFields_no_data:
  assumes "filter (\<lambda>(k, v). v \<noteq> Prim JNull \<and> v \<noteq> Prim JUndefined) (field_values a) = []"
  shows "getMissingFields a = [''age'', ''smoker'', ''exercise'', ''diet'']"
proof -
  have "\<forall>(k, v) \<in> set (field_values a). v = Prim JNull \<or> v = Prim JUndefined"
    using assms by (auto simp: filter_empty_conv)
  then show ?thesis
    by (auto simp: field_values_def getMissingFields_def CORE_FIELDS_def)
qed

section \<open>Properties of the pipeline and of the handlers\<close>

lemma checkProfileCompleteness_status:
  "guard_status (checkProfileCompleteness B pr) \<in>
     {Some ''parse_error'', Some ''low_confidence'', Some ''incomplete_profile'',
      Some ''no_data'', Some ''ok''}"
  by (simp add: checkProfileCompleteness_def failure_def)

lemma checkProfileCompleteness_valid:
  "isValid (checkProfileCompleteness B pr) = (guard_status (checkProfileCompleteness B pr) = Some ''ok'')"
  by (simp add: checkProfileCompleteness_def failure_def)

lemma validateInput_status:
  "guard_status (validateInput B input) \<in>
     {Some ''invalid_input'', Some ''empty_input'', Some ''invalid_json'', None}"
  by (simp add: validateInput_def failure_def Let_def split: json.splits jsval.splits)

lemma validateInput_valid:
  "isValid (validateInput B input) = (guard_status (validateInput B input) = None)"
  by (simp add: validateInput_def failure_def Let_def split: json.splits jsval.splits)

lemma pipeline_error_status:
  "map_option status (pipeline_error (runAnalysisPipeline B input isOcr)) =
     (if \<not> isValid (validateInput B input) then guard_status (validateInput B input)
      else if \<not> isValid (checkProfileCompleteness B (parseSurvey B input isOcr))
      then guard_status (checkProfileCompleteness B (parseSurvey B input isOcr))
      else None)"
  using validateInput_status [of B input] validateInput_valid [of B input]
    checkProfileCompleteness_status [of B "parseSurvey B input isOcr"]
    checkProfileCompleteness_valid [of B "parseSurvey B input isOcr"]
  by (auto simp add: runAnalysisPipeline_def Let_def createErrorResponse_def)

lemma pipeline_success:
  "success (runAnalysisPipeline B input isOcr) =
     (isValid (validateInput B input)
      \<and> isValid (checkProfileCompleteness B (parseSurvey B input isOcr)))"
  by (simp add: runAnalysisPipeline_def Let_def)

lemma runAnalysisPipeline_never_invalid_ocr:
  "map_option status (pipeline_error (runAnalysisPipeline B input isOcr)) \<noteq> Some ''invalid_ocr''"
  unfolding pipeline_error_status
  using validateInput_status [of B input]
    checkProfileCompleteness_status [of B "parseSurvey B input isOcr"]
  by auto

lemma analyze_statusCode:
  "statusCode (analyze B input isOcr options) =
     (if options = Prim JNull then 500
      else if guard_status (validateInput B input) = Some ''invalid_input'' then 400
      else 200)"
proof (cases "options = Prim JNull")
  case True
  then show ?thesis by (simp add: analyze_def)
next
  case False
  then have "statusCode (analyze B input isOcr options) =
      (if \<not> success (runAnalysisPipeline B input isOcr)
          \<and> map_option status (pipeline_error (runAnalysisPipeline B input isOcr))
              = Some ''invalid_input''
       then 400 else 200)"
    by (simp add: analyze_def Let_def)
  then show ?thesis
    unfolding pipeline_error_status pipeline_success
    using False validateInput_status [of B input] validateInput_valid [of B input]
      checkProfileCompleteness_status [of B "parseSurvey B input isOcr"]
      checkProfileCompleteness_valid [of B "parseSurvey B input isOcr"]
    by auto
qed

text \<open>
  C2. A request whose input fails \<open>validateInput\<close> is answered with 400. The handler of
  \<open>POST /api/analyze\<close> does so for the status \<open>invalid_input\<close> only: the empty
  string, the empty object and a text that opens a brace and is no JSON are answered
  with 200, while the legacy handler answers each of them with 400.
\<close>

theorem analyze_empty_input:
  "statusCode (analyze B (Prim (JStr '''')) isOcr (Prim JUndefined)) = 200 \<and>
   map_option status (body_error (analyze B (Prim (JStr '''')) isOcr (Prim JUndefined)))
     = Some ''empty_input'' \<and>
   statusCode (analyze B (JObj []) isOcr (Prim JUndefined)) = 200 \<and>
   map_option status (body_error (analyze B (JObj []) isOcr (Prim JUndefined)))
     = Some ''empty_input'' \<and>
   statusCode (analyze test_builtins (Prim (JStr ''{'')) isOcr (Prim JUndefined)) = 200 \<and>
   map_option status
     (body_error (analyze test_builtins (Prim (JStr ''{'')) isOcr (Prim JUndefined)))
     = Some ''invalid_json'' \<and>
   statusCode (analyze_legacy B (Prim (JStr '''')) isOcr) = 400 \<and>
   statusCode (analyze_legacy B (JObj []) isOcr) = 400 \<and>
   statusCode (analyze_legacy test_builtins (Prim (JStr ''{'')) isOcr) = 400"
  by (simp add: analyze_def analyze_legacy_def runAnalysisPipeline_def Let_def
      validateInput_def failure_def createErrorResponse_def trim_def is_space_def
      starts_with_def test_builtins_def)

lemma parseSurvey_short_ocr:
  "parseSurvey B (Prim (JStr ''Age: 42'')) True =
     \<lparr>answers = empty_answers\<lparr>age := JNum (Num 42)\<rparr>,
      missing_fields = [''smoker'', ''exercise'', ''diet''],
      confidence = 75 / 100, error = None\<rparr>"
  by code_simp

text \<open>
  C3. For OCR input the pipeline can fail at the parse stage with \<open>invalid_ocr\<close>. It
  cannot: \<open>runAnalysisPipeline\<close> never calls \<open>validateOcrText\<close>
  (\<open>runAnalysisPipeline_never_invalid_ocr\<close>). On the OCR text \<open>Age: 42\<close>, which that
  check rejects as too short, the pipeline fails with \<open>incomplete_profile\<close>; the legacy
  handler answers the same request with \<open>invalid_ocr\<close>.
\<close>

theorem runAnalysisPipeline_short_ocr:
  "validateOcrText (Prim (JStr ''Age: 42'')) =
     \<lparr>ocr_isValid = False,
      ocr_reason = Some ''OCR text is too short to contain valid survey data'',
      ocr_warnings = [], keywordsFound = []\<rparr> \<and>
   map_option status (pipeline_error (runAnalysisPipeline B (Prim (JStr ''Age: 42'')) True))
     = Some ''incomplete_profile'' \<and>
   statusCode (analyze B (Prim (JStr ''Age: 42'')) True (Prim JUndefined)) = 200 \<and>
   map_option status (body_error (analyze_legacy B (Prim (JStr ''Age: 42'')) True))
     = Some ''invalid_ocr'' \<and>
   statusCode (analyze_legacy B (Prim (JStr ''Age: 42'')) True) = 400"
proof -
  have v: "validateInput B (Prim (JStr ''Age: 42'')) =
      \<lparr>isValid = True, guard_status = None, guard_reason = None,
       guard_missing_fields = None, warnings = None\<rparr>"
    by (simp add: validateInput_def trim_def is_space_def starts_with_def Let_def)
  have o: "validateOcrText (Prim (JStr ''Age: 42'')) =
     \<lparr>ocr_isValid = False,
      ocr_reason = Some ''OCR text is too short to contain valid survey data'',
      ocr_warnings = [], keywordsFound = []\<rparr>"
    by (simp add: validateOcrText_def trim_def is_space_def Let_def)
  have c: "guard_status (checkProfileCompleteness B (parseSurvey B (Prim (JStr ''Age: 42'')) True))
      = Some ''incomplete_profile''"
    "\<not> isValid (checkProfileCompleteness B (parseSurvey B (Prim (JStr ''Age: 42'')) True))"
    unfolding parseSurvey_short_ocr
    by (simp_all add: checkProfileCompleteness_def MIN_CONFIDENCE_def
        MAX_MISSING_PERCENTAGE_def CORE_FIELDS_def failure_def)
  have p: "map_option status (pipeline_error (runAnalysisPipeline B (Prim (JStr ''Age: 42'')) True))
     = Some ''incomplete_profile''"
    unfolding pipeline_error_status using v c by simp
  have a: "statusCode (analyze B (Prim (JStr ''Age: 42'')) True (Prim JUndefined)) = 200"
    unfolding analyze_statusCode using v by simp
  have l: "analyze_legacy B (Prim (JStr ''Age: 42'')) True =
      \<lparr>statusCode = 400,
       body_error = Some (createErrorResponse ''invalid_ocr''
          ''OCR text is too short to contain valid survey data''),
       body_data = None\<rparr>"
    by (simp add: analyze_legacy_def Let_def v o)
  show ?thesis using o p a by (simp add: l createErrorResponse_def)
qed

text \<open>
  C10. A parse result that \<open>parseSurvey\<close> produces without an error has a confidence of
  at least 0.54, so \<open>checkProfileCompleteness\<close> never answers \<open>low_confidence\<close> on a
  result of \<open>parseSurvey\<close>; and it never answers \<open>no_data\<close>, since answers without any
  value miss all four core fields, which \<open>incomplete_profile\<close> reports first. Neither
  status leaves the pipeline.
\<close>

theorem checkProfileCompleteness_unreachable:
  "(error (parseSurvey B input isOcr) = None \<longrightarrow>
      54 / 100 \<le> confidence (parseSurvey B input isOcr)) \<and>
   guard_status (checkProfileCompleteness B (parseSurvey B input isOcr))
     \<noteq> Some ''low_confidence'' \<and>
   guard_status (checkProfileCompleteness B (parseSurvey B input isOcr))
     \<noteq> Some ''no_data'' \<and>
   map_option status (pipeline_error (runAnalysisPipeline B input isOcr))
     \<noteq> Some ''low_confidence'' \<and>
   map_option status (pipeline_error (runAnalysisPipeline B input isOcr))
     \<noteq> Some ''no_data''"
proof -
  let ?r = "parseSurvey B input isOcr"
  have conf: "error ?r = None \<longrightarrow> 54 / 100 \<le> confidence ?r"
    using calculateConfidence_lower
    by (auto simp: parseSurvey_def split: sum.splits)
  have st: "guard_status (checkProfileCompleteness B ?r) \<noteq> Some ''low_confidence'' \<and>
    guard_status (checkProfileCompleteness B ?r) \<noteq> Some ''no_data''"
  proof (cases "parse_attempt B input isOcr")
    case (Inl e)
    then show ?thesis
      by (simp add: parseSurvey_def checkProfileCompleteness_def failure_def)
  next
    case (Inr a)
    have c: "\<not> calculateConfidence a isOcr < MIN_CONFIDENCE"
      using calculateConfidence_lower [of a isOcr] by (simp add: MIN_CONFIDENCE_def)
    have n: "filter (\<lambda>(k, v). v \<noteq> Prim JNull \<and> v \<noteq> Prim JUndefined) (field_values a) = []
        \<Longrightarrow>
        of_nat (length (getMissingFields a)) / of_nat (length CORE_FIELDS)
          > MAX_MISSING_PERCENTAGE"
      by (simp add: getMissingFields_no_data CORE_FIELDS_def MAX_MISSING_PERCENTAGE_def)
    show ?thesis using c n
      by (auto simp: Inr parseSurvey_def checkProfileCompleteness_def failure_def)
  qed
  have v: "guard_status (validateInput B input) \<noteq> Some ''low_confidence''"
    "guard_status (validateInput B input) \<noteq> Some ''no_data''"
    using validateInput_status [of B input] by auto
  show ?thesis
    using conf st v unfolding pipeline_error_status by simp
qed

theorem checkProfileCompleteness_unreachable_witness:
  "error (parseSurvey test_builtins (Prim (JStr ''Age: 42'')) True) = None \<and>
   (54 / 100 :: rat) \<le> confidence (parseSurvey test_builtins (Prim (JStr ''Age: 42'')) True) \<and>
   confidence (parseSurvey test_builtins (Prim (JStr ''Age: 42'')) True) = 75 / 100"
  using checkProfileCompleteness_unreachable
    [where B = test_builtins and input = "Prim (JStr ''Age: 42'')" and isOcr = True]
  by (simp add: parseSurvey_short_ocr)


end
